theory Spec2Isabelle
  imports Complex_Main "HOL-Library.Multiset" "HOL-Library.Log_Nat"
begin

section \<open>The book catalogue and its lending lifecycle\<close>

text \<open>
  A shallow embedding of \<^verbatim>\<open>models/Book.js\<close> (the schema and its three instance
  methods) and of \<^verbatim>\<open>controllers/booksController.js\<close> (the request handlers).

  Conventions of the embedding.
  \<^item> A field that JavaScript leaves \<^verbatim>\<open>undefined\<close> or sets to \<^verbatim>\<open>null\<close> is \<open>None\<close>:
    both are "absent", and both are falsy where the code tests them.
  \<^item> The identifier of a stored document is an ObjectId, here a number. A string of a
    request that is to name an identifier (\<open>idText\<close>) either is an ObjectId or is not,
    and then the cast of the schema throws. The collection is the list of its documents
    in insertion order, documents that the schema has accepted.
  \<^item> A \<^verbatim>\<open>Date\<close> is its number of milliseconds, a valid one having at most
    8640000000000000 of them on either side of the epoch; the time zone of the server has
    no clock changes, so that a calendar day has 86400000 ms.
  \<^item> The numbers of the schema that count things are integers, held as JavaScript holds
    them: as doubles, exact below \<open>2 ^ 53\<close> and rounded above (\<open>dbl\<close>). The rating is a
    rational.
  \<^item> Strings are ASCII, so that the length of a string is its number of characters.
  \<^item> Every \<^verbatim>\<open>new Date()\<close> of the source is a separate reading of the clock, passed
    in as an argument, as is the identifier the driver gives a new document.
  \<^item> A handler returns its response together with the collection it leaves behind.
\<close>

type_synonym objectId = nat
type_synonym date = int

datatype idText = IsObjectId objectId | NotObjectId string

subsection \<open>The schema\<close>

record borrower =
  userId :: "objectId option"
  name :: "string option"
  email :: "string option"

record book =
  book_id :: objectId
  title :: string
  author :: string
  description :: "string option"
  genre :: string
  category :: string
  isbn :: "string option"
  coverUrl :: string
  coverImage :: "string option"
  publishedYear :: "int option"
  rating :: rat
  totalReviews :: int
  available :: bool
  status :: string
  borrowedBy :: borrower
  borrowedAt :: "date option"
  dueDate :: "date option"
  borrowDate :: "date option"
  renewalCount :: int
  maxRenewals :: int
  tags :: "string list"
  isNewRelease :: bool
  createdAt :: date
  updatedAt :: date

text \<open>
  The failures of the handlers, named as the specification names them. Each stands for
  the response the handler sends:
  \<^item> \<open>NotFound\<close>: 404 \<^verbatim>\<open>'Book not found'\<close>;
  \<^item> \<open>InvalidInput\<close>: 400 \<^verbatim>\<open>'Please provide ...'\<close>;
  \<^item> \<open>ValidationFailed\<close>: 400 with the messages of the schema validators that failed;
  \<^item> \<open>DuplicateISBN\<close>: 400 \<^verbatim>\<open>'A book with this ISBN already exists'\<close> (error code 11000);
  \<^item> \<open>NotAvailable\<close>: 400 \<^verbatim>\<open>'Book is not available for borrowing'\<close>;
  \<^item> \<open>NotBorrowed\<close>: 400 \<^verbatim>\<open>'Book is not currently borrowed'\<close> (return) and
    400 \<^verbatim>\<open>'Cannot renew a book that is not borrowed'\<close> (renew);
  \<^item> \<open>RenewalLimitExceeded\<close>: 400 \<^verbatim>\<open>'Maximum renewal limit reached'\<close>;
  \<^item> \<open>BadRequest\<close>: 400 with the message of any other error that the renew handler
    catches;
  \<^item> \<open>ServerError\<close>: 500, any other error of the other handlers.
  What the model and the store throw is a \<open>CastError\<close> (a string is not an ObjectId) or a
  \<open>ValidationError\<close> (\<^verbatim>\<open>save\<close> rejects the document).
\<close>

datatype thrown = CastError | ValidationError

datatype error =
    NotFound
  | InvalidInput
  | ValidationFailed "string list"
  | DuplicateISBN
  | NotAvailable
  | NotBorrowed
  | RenewalLimitExceeded
  | BadRequest
  | ServerError

type_synonym collection = "book list"
type_synonym response = "(error + book) \<times> collection"

subsection \<open>The collection\<close>

text \<open>The document of an identifier, and \<^verbatim>\<open>Book.findById\<close>, which casts its argument first.\<close>

definition findDoc :: "collection \<Rightarrow> objectId \<Rightarrow> book option" where
  "findDoc st i = find (\<lambda>b. book_id b = i) st"

definition findById :: "collection \<Rightarrow> idText \<Rightarrow> thrown + book option" where
  "findById st r =
     (case r of
        NotObjectId s \<Rightarrow> Inl CastError
      | IsObjectId i \<Rightarrow> Inr (findDoc st i))"

text \<open>
  \<^verbatim>\<open>this.save()\<close> on a loaded, modified document. A document to which a method has
  assigned a value that fails the cast of its path carries the cast error, and
  \<^verbatim>\<open>save\<close> rejects it; such a document is \<open>None\<close> here. Otherwise the schema option
  \<^verbatim>\<open>timestamps: true\<close> stamps \<open>updatedAt\<close>, and the document replaces the stored one of
  the same identifier. The validators have nothing to reject: the stored document has
  passed them, and what the three methods below write in its place (a status of the
  enumeration, a \<open>renewalCount\<close> that is zero or has grown) passes them too.
\<close>

definition save :: "book option \<Rightarrow> date \<Rightarrow> collection \<Rightarrow> (thrown + book) \<times> collection" where
  "save doc now st =
     (case doc of
        None \<Rightarrow> (Inl ValidationError, st)
      | Some d \<Rightarrow>
          (let doc' = d\<lparr>updatedAt := now\<rparr>
           in (Inr doc', map (\<lambda>b. if book_id b = book_id doc' then doc' else b) st)))"

subsection \<open>Instance methods of the model\<close>

text \<open>
  \<^verbatim>\<open>d.setDate(d.getDate() + n)\<close>: the date \<open>n\<close> days on, or \<open>None\<close>, the invalid date,
  when that leaves the range of \<^verbatim>\<open>Date\<close>.
\<close>

definition addDays :: "date \<Rightarrow> int \<Rightarrow> date option" where
  "addDays d n =
     (let r = d + n * 86400000
      in if \<bar>r\<bar> \<le> 8640000000000000 then Some r else None)"

text \<open>
  The double nearest to an integer (ties go to the even mantissa), for integers below the
  largest double: what an integer result of JavaScript's arithmetic becomes.
\<close>

definition dbl :: "int \<Rightarrow> int" where
  "dbl n =
     (let a = \<bar>n\<bar>
      in if a < 2 ^ 53 then n
         else (let e = nat (bitlen a - 53);
                   q = a div 2 ^ e;
                   r = a mod 2 ^ e;
                   h = 2 ^ (e - 1);
                   q' = (if h < r \<or> (r = h \<and> odd q) then q + 1 else q)
               in sgn n * (q' * 2 ^ e)))"

text \<open>A parameter with a default takes the default when the argument is \<^verbatim>\<open>undefined\<close>.\<close>

definition orDefault :: "int option \<Rightarrow> int \<Rightarrow> int" where
  "orDefault w d = (case w of None \<Rightarrow> d | Some v \<Rightarrow> v)"

text \<open>
  The cast of \<open>borrowedBy.userId\<close>, a path of type ObjectId: an absent value stays
  absent, an ObjectId is taken, any other string fails (\<open>None\<close>).
\<close>

definition castUserId :: "idText option \<Rightarrow> objectId option option" where
  "castUserId v =
     (case v of
        None \<Rightarrow> Some None
      | Some (IsObjectId u) \<Rightarrow> Some (Some u)
      | Some (NotObjectId s) \<Rightarrow> None)"

text \<open>
  \<^verbatim>\<open>borrowBook(userId, userName, userEmail, weeks = 3)\<close>, up to its \<^verbatim>\<open>save\<close>.
  \<open>t1\<close>, \<open>t2\<close> and \<open>t3\<close> are its three readings of the clock, in the order of the source.
  The result is \<open>None\<close> when the user id or the due date fails its cast.
\<close>

definition Book_borrowBook ::
  "book \<Rightarrow> idText option \<Rightarrow> string option \<Rightarrow> string option \<Rightarrow> int option
     \<Rightarrow> date \<Rightarrow> date \<Rightarrow> date \<Rightarrow> book option" where
  "Book_borrowBook this uid userName userEmail weeks t1 t2 t3 =
     (case castUserId uid of
        None \<Rightarrow> None
      | Some u \<Rightarrow>
          (case addDays t3 (orDefault weeks 3 * 7) of
             None \<Rightarrow> None
           | Some due \<Rightarrow>
               Some (this\<lparr>available := False,
                          status := ''Borrowed'',
                          borrowedBy := \<lparr>userId = u, name = userName, email = userEmail\<rparr>,
                          borrowedAt := Some t1,
                          borrowDate := Some t2,
                          dueDate := Some due\<rparr>)))"

text \<open>\<^verbatim>\<open>returnBook()\<close>, up to its \<^verbatim>\<open>save\<close>; nothing it assigns can fail a cast.\<close>

definition Book_returnBook :: "book \<Rightarrow> book" where
  "Book_returnBook this =
     this\<lparr>available := True,
          status := ''Available'',
          borrowedBy := \<lparr>userId = None, name = None, email = None\<rparr>,
          borrowedAt := None,
          borrowDate := None,
          dueDate := None,
          renewalCount := 0\<rparr>"

text \<open>
  \<^verbatim>\<open>renewBook(weeks = 2)\<close>, up to its \<^verbatim>\<open>save\<close>. The two \<^verbatim>\<open>throw\<close>s are the two
  errors, in the order of the source: the cap first, then the missing due date. The
  document is \<open>None\<close> when the new due date fails its cast.
\<close>

definition Book_renewBook :: "book \<Rightarrow> int option \<Rightarrow> error + book option" where
  "Book_renewBook this weeks =
     (if renewalCount this \<ge> maxRenewals this then Inl RenewalLimitExceeded
      else case dueDate this of
             None \<Rightarrow> Inl NotBorrowed
           | Some d \<Rightarrow>
               (case addDays d (orDefault weeks 2 * 7) of
                  None \<Rightarrow> Inr None
                | Some due \<Rightarrow>
                    Inr (Some (this\<lparr>dueDate := Some due,
                                   renewalCount := dbl (renewalCount this + 1)\<rparr>))))"

subsection \<open>The lending handlers\<close>

text \<open>The body of a borrow request.\<close>

record borrowBody =
  br_userId :: "idText option"
  br_userName :: "string option"
  br_userEmail :: "string option"
  br_weeks :: "int option"

text \<open>
  JavaScript's \<^verbatim>\<open>!v\<close> on a request field: an absent field and the empty string are
  falsy; an ObjectId is never empty.
\<close>

definition falsy :: "string option \<Rightarrow> bool" where
  "falsy v = (case v of None \<Rightarrow> True | Some s \<Rightarrow> s = [])"

definition falsyId :: "idText option \<Rightarrow> bool" where
  "falsyId v =
     (case v of
        None \<Rightarrow> True
      | Some (IsObjectId u) \<Rightarrow> False
      | Some (NotObjectId s) \<Rightarrow> s = [])"

text \<open>
  \<^verbatim>\<open>exports.borrowBook\<close>; \<open>r\<close> is \<^verbatim>\<open>req.params.id\<close> and \<open>t4\<close> the clock at the
  \<^verbatim>\<open>save\<close>. Its \<^verbatim>\<open>catch\<close> answers whatever is thrown with the 500.
\<close>

definition borrowBook ::
  "idText \<Rightarrow> borrowBody \<Rightarrow> date \<Rightarrow> date \<Rightarrow> date \<Rightarrow> date \<Rightarrow> collection \<Rightarrow> response" where
  "borrowBook r body t1 t2 t3 t4 st =
     (if falsyId (br_userId body) \<or> falsy (br_userName body) \<or> falsy (br_userEmail body)
      then (Inl InvalidInput, st)
      else case findById st r of
             Inl x \<Rightarrow> (Inl ServerError, st)
           | Inr None \<Rightarrow> (Inl NotFound, st)
           | Inr (Some bk) \<Rightarrow>
               if \<not> available bk then (Inl NotAvailable, st)
               else (case save (Book_borrowBook bk (br_userId body) (br_userName body)
                                 (br_userEmail body) (br_weeks body) t1 t2 t3) t4 st of
                       (Inl x, st') \<Rightarrow> (Inl ServerError, st')
                     | (Inr doc, st') \<Rightarrow> (Inr doc, st')))"

text \<open>\<^verbatim>\<open>exports.returnBook\<close>; its \<^verbatim>\<open>catch\<close> answers whatever is thrown with the 500.\<close>

definition returnBook :: "idText \<Rightarrow> date \<Rightarrow> collection \<Rightarrow> response" where
  "returnBook r now st =
     (case findById st r of
        Inl x \<Rightarrow> (Inl ServerError, st)
      | Inr None \<Rightarrow> (Inl NotFound, st)
      | Inr (Some bk) \<Rightarrow>
          if available bk then (Inl NotBorrowed, st)
          else (case save (Some (Book_returnBook bk)) now st of
                  (Inl x, st') \<Rightarrow> (Inl ServerError, st')
                | (Inr doc, st') \<Rightarrow> (Inr doc, st')))"

text \<open>
  \<^verbatim>\<open>exports.renewBook\<close>; the argument \<open>weeks\<close> is the field of the request body. Its
  \<^verbatim>\<open>catch\<close> answers whatever is thrown with a 400 and the message of the error: the two
  errors of the method, and otherwise the \<open>BadRequest\<close>.
\<close>

definition renewBook :: "idText \<Rightarrow> int option \<Rightarrow> date \<Rightarrow> collection \<Rightarrow> response" where
  "renewBook r weeks now st =
     (case findById st r of
        Inl x \<Rightarrow> (Inl BadRequest, st)
      | Inr None \<Rightarrow> (Inl NotFound, st)
      | Inr (Some bk) \<Rightarrow>
          (case Book_renewBook bk weeks of
             Inl e \<Rightarrow> (Inl e, st)
           | Inr doc \<Rightarrow>
               (case save doc now st of
                  (Inl x, st') \<Rightarrow> (Inl BadRequest, st')
                | (Inr doc', st') \<Rightarrow> (Inr doc', st'))))"

subsection \<open>Creating, updating and deleting\<close>

text \<open>
  The body of a create or update request: every path of the schema may be supplied, and
  \<^verbatim>\<open>Book.create(req.body)\<close> and \<^verbatim>\<open>findByIdAndUpdate(id, req.body, ...)\<close> take the body
  whole. The fields are typed as the schema casts them.
\<close>

record bookBody =
  req_title :: "string option"
  req_author :: "string option"
  req_description :: "string option"
  req_genre :: "string option"
  req_category :: "string option"
  req_isbn :: "string option"
  req_coverUrl :: "string option"
  req_coverImage :: "string option"
  req_publishedYear :: "int option"
  req_rating :: "rat option"
  req_totalReviews :: "int option"
  req_available :: "bool option"
  req_status :: "string option"
  req_borrowedBy :: "borrower option"
  req_borrowedAt :: "date option"
  req_dueDate :: "date option"
  req_borrowDate :: "date option"
  req_renewalCount :: "int option"
  req_maxRenewals :: "int option"
  req_tags :: "string list option"
  req_isNewRelease :: "bool option"

text \<open>\<^verbatim>\<open>trim: true\<close>: the setter strips white space at both ends (ASCII white space here).\<close>

definition isSpace :: "char \<Rightarrow> bool" where
  "isSpace c = (c \<in> set [CHR '' '', CHR 0x09, CHR 0x0A, CHR 0x0B, CHR 0x0C, CHR 0x0D])"

definition trim :: "string \<Rightarrow> string" where
  "trim s = rev (dropWhile isSpace (rev (dropWhile isSpace s)))"

text \<open>Assigning a supplied field; a field that is not supplied keeps its value.\<close>

definition setStr :: "string option \<Rightarrow> string \<Rightarrow> string" where
  "setStr v cur = (case v of None \<Rightarrow> cur | Some s \<Rightarrow> trim s)"

definition setOptStr :: "string option \<Rightarrow> string option \<Rightarrow> string option" where
  "setOptStr v cur = (case v of None \<Rightarrow> cur | Some s \<Rightarrow> Some (trim s))"

definition setVal :: "'a option \<Rightarrow> 'a \<Rightarrow> 'a" where
  "setVal v cur = (case v of None \<Rightarrow> cur | Some x \<Rightarrow> x)"

definition setOpt :: "'a option \<Rightarrow> 'a option \<Rightarrow> 'a option" where
  "setOpt v cur = (case v of None \<Rightarrow> cur | Some x \<Rightarrow> Some x)"

definition applyBody :: "bookBody \<Rightarrow> book \<Rightarrow> book" where
  "applyBody body b =
     b\<lparr>title := setStr (req_title body) (title b),
       author := setStr (req_author body) (author b),
       description := setOptStr (req_description body) (description b),
       genre := setStr (req_genre body) (genre b),
       category := setStr (req_category body) (category b),
       isbn := setOptStr (req_isbn body) (isbn b),
       coverUrl := setStr (req_coverUrl body) (coverUrl b),
       coverImage := setOptStr (req_coverImage body) (coverImage b),
       publishedYear := setOpt (req_publishedYear body) (publishedYear b),
       rating := setVal (req_rating body) (rating b),
       totalReviews := setVal (req_totalReviews body) (totalReviews b),
       available := setVal (req_available body) (available b),
       status := setVal (req_status body) (status b),
       borrowedBy := setVal (req_borrowedBy body) (borrowedBy b),
       borrowedAt := setOpt (req_borrowedAt body) (borrowedAt b),
       dueDate := setOpt (req_dueDate body) (dueDate b),
       borrowDate := setOpt (req_borrowDate body) (borrowDate b),
       renewalCount := setVal (req_renewalCount body) (renewalCount b),
       maxRenewals := setVal (req_maxRenewals body) (maxRenewals b),
       tags := (case req_tags body of None \<Rightarrow> tags b | Some ts \<Rightarrow> map trim ts),
       isNewRelease := setVal (req_isNewRelease body) (isNewRelease b)\<rparr>"

text \<open>
  A new document before the body is applied: the defaults of the schema, the identifier
  of the driver, and both time stamps at the clock of the insertion. \<open>title\<close> and
  \<open>author\<close> have no default; a document without them is never stored (see
  \<open>validationMessages\<close>).
\<close>

definition newBook :: "objectId \<Rightarrow> date \<Rightarrow> book" where
  "newBook oid now =
     \<lparr>book_id = oid, title = [], author = [], description = None,
      genre = ''General'', category = ''General'', isbn = None,
      coverUrl = ''https://images.unsplash.com/photo-1544947950-fa07a98d237f?w=300&h=400&fit=crop&auto=format'',
      coverImage = None, publishedYear = None, rating = 0, totalReviews = 0,
      available = True, status = ''Available'',
      borrowedBy = \<lparr>userId = None, name = None, email = None\<rparr>,
      borrowedAt = None, dueDate = None, borrowDate = None,
      renewalCount = 0, maxRenewals = 2, tags = [], isNewRelease = False,
      createdAt = now, updatedAt = now\<rparr>"

text \<open>
  The validators of the schema, on the fields a request supplies, each after its setter;
  \<open>isNew\<close> says that the document is being created, where a required path that is not
  supplied fails too. \<open>yearLimit\<close> is the \<^verbatim>\<open>new Date().getFullYear() + 1\<close> the schema
  computed when the module was loaded. The messages come in the order of the schema.
\<close>

definition requiredStr :: "bool \<Rightarrow> string option \<Rightarrow> nat \<Rightarrow> string \<Rightarrow> string \<Rightarrow> string list" where
  "requiredStr isNew v maxlen missing tooLong =
     (case v of
        None \<Rightarrow> (if isNew then [missing] else [])
      | Some s \<Rightarrow> (if trim s = [] then [missing]
                   else if length (trim s) > maxlen then [tooLong] else []))"

definition minInt :: "int option \<Rightarrow> int \<Rightarrow> string \<Rightarrow> string list" where
  "minInt v lo msg = (case v of None \<Rightarrow> [] | Some n \<Rightarrow> (if n < lo then [msg] else []))"

definition statusEnum :: "string list" where
  "statusEnum = [''Available'', ''Borrowed'', ''Reserved'', ''Checked Out'']"

definition validationMessages :: "bool \<Rightarrow> int \<Rightarrow> bookBody \<Rightarrow> string list" where
  "validationMessages isNew yearLimit body =
     requiredStr isNew (req_title body) 200
        ''Book title is required'' ''Title cannot exceed 200 characters''
     @ requiredStr isNew (req_author body) 100
        ''Author name is required'' ''Author name cannot exceed 100 characters''
     @ (case req_description body of
          None \<Rightarrow> []
        | Some s \<Rightarrow> (if length (trim s) > 1000
                     then [''Description cannot exceed 1000 characters''] else []))
     @ (case req_publishedYear body of
          None \<Rightarrow> []
        | Some y \<Rightarrow> (if y < 1000 then [''Invalid year'']
                     else if y > yearLimit then [''Year cannot be in the future''] else []))
     @ (case req_rating body of
          None \<Rightarrow> []
        | Some r \<Rightarrow> (if r < 0 then [''Rating must be at least 0'']
                     else if r > 5 then [''Rating cannot exceed 5''] else []))
     @ minInt (req_totalReviews body) 0 ''Total reviews cannot be negative''
     @ (case req_status body of
          None \<Rightarrow> []
        | Some s \<Rightarrow> (if s \<in> set statusEnum then []
                     else [''`'' @ s @ ''` is not a valid enum value for path `status`.'']))
     @ minInt (req_renewalCount body) 0 ''Renewal count cannot be negative''
     @ minInt (req_maxRenewals body) 0 ''Max renewals cannot be negative''"

text \<open>
  The unique sparse index on \<open>isbn\<close>: a write is refused (error code 11000) when one
  of the other documents already holds the same value; a document without the field is
  not indexed.
\<close>

definition isbnTaken :: "string option \<Rightarrow> collection \<Rightarrow> bool" where
  "isbnTaken v others =
     (case v of
        None \<Rightarrow> False
      | Some s \<Rightarrow> Some s \<in> set (map isbn others))"

text \<open>
  \<^verbatim>\<open>exports.createBook\<close>. \<open>oid\<close> is the identifier the driver generates (one that no
  stored document has), \<open>now\<close> the clock at the insertion.
\<close>

definition createBook :: "int \<Rightarrow> objectId \<Rightarrow> date \<Rightarrow> bookBody \<Rightarrow> collection \<Rightarrow> response" where
  "createBook yearLimit oid now body st =
     (if falsy (req_title body) \<or> falsy (req_author body) then (Inl InvalidInput, st)
      else case validationMessages True yearLimit body of
             m # ms \<Rightarrow> (Inl (ValidationFailed (m # ms)), st)
           | [] \<Rightarrow>
               (let doc = applyBody body (newBook oid now)
                in if isbnTaken (isbn doc) st then (Inl DuplicateISBN, st)
                   else (Inr doc, st @ [doc])))"

text \<open>
  \<^verbatim>\<open>exports.updateBook\<close>: \<^verbatim>\<open>findByIdAndUpdate\<close> with \<^verbatim>\<open>runValidators\<close>, which casts
  the identifier before anything else; the handler answers that cast error
  (\<^verbatim>\<open>error.kind === 'ObjectId'\<close>) as it answers a book that is not there. It has no
  branch for error code 11000, which ends in its last response, the 500.
\<close>

definition updateBook :: "int \<Rightarrow> idText \<Rightarrow> bookBody \<Rightarrow> date \<Rightarrow> collection \<Rightarrow> response" where
  "updateBook yearLimit r body now st =
     (case r of
        NotObjectId s \<Rightarrow> (Inl NotFound, st)
      | IsObjectId i \<Rightarrow>
          (case validationMessages False yearLimit body of
             m # ms \<Rightarrow> (Inl (ValidationFailed (m # ms)), st)
           | [] \<Rightarrow>
               (case findDoc st i of
                  None \<Rightarrow> (Inl NotFound, st)
                | Some bk \<Rightarrow>
                    (let doc = (applyBody body bk)\<lparr>updatedAt := now\<rparr>
                     in if isbnTaken (setOptStr (req_isbn body) None)
                             (filter (\<lambda>b. book_id b \<noteq> i) st)
                        then (Inl ServerError, st)
                        else (Inr doc, map (\<lambda>b. if book_id b = i then doc else b) st)))))"

text \<open>
  \<^verbatim>\<open>exports.deleteBook\<close>; its success response carries no document, and it answers the
  cast error of the identifier as it answers a book that is not there.
\<close>

definition deleteBook :: "idText \<Rightarrow> collection \<Rightarrow> (error + unit) \<times> collection" where
  "deleteBook r st =
     (case findById st r of
        Inl x \<Rightarrow> (Inl NotFound, st)
      | Inr None \<Rightarrow> (Inl NotFound, st)
      | Inr (Some bk) \<Rightarrow> (Inr (), filter (\<lambda>b. book_id b \<noteq> book_id bk) st))"

subsection \<open>Listing\<close>

text \<open>
  The query string of a list request. A parameter is given once and by its plain name,
  so that every value is a string.
\<close>

record listQuery =
  lq_q :: "string option"
  lq_category :: "string option"
  lq_genre :: "string option"
  lq_available :: "string option"
  lq_status :: "string option"

text \<open>The query object the handler builds.\<close>

record mongoQuery =
  mq_text :: "string option"
  mq_category :: "string option"
  mq_genre :: "string option"
  mq_available :: "bool option"
  mq_status :: "string option"

definition ifTruthy :: "string option \<Rightarrow> string option" where
  "ifTruthy v = (if falsy v then None else v)"

definition buildQuery :: "listQuery \<Rightarrow> mongoQuery" where
  "buildQuery rq =
     \<lparr>mq_text = ifTruthy (lq_q rq),
      mq_category = ifTruthy (lq_category rq),
      mq_genre = ifTruthy (lq_genre rq),
      mq_available = (case lq_available rq of None \<Rightarrow> None | Some s \<Rightarrow> Some (s = ''true'')),
      mq_status = ifTruthy (lq_status rq)\<rparr>"

text \<open>
  \<^verbatim>\<open>Book.find(query)\<close> casts the values of the query object through the schema, setters
  included: those of \<open>category\<close> and \<open>genre\<close> are trimmed (\<^verbatim>\<open>trim: true\<close>), that of
  \<open>status\<close>, which has no setter, and the text search are taken as they are.
\<close>

definition castFilter :: "mongoQuery \<Rightarrow> mongoQuery" where
  "castFilter q =
     q\<lparr>mq_category := map_option trim (mq_category q),
       mq_genre := map_option trim (mq_genre q)\<rparr>"

text \<open>
  A document is selected when it meets every condition of the cast query object. The
  text search of the store over the index on title, author and description is the
  parameter \<open>txt\<close>.
\<close>

definition meets :: "'a option \<Rightarrow> 'a \<Rightarrow> bool" where
  "meets cond v = (case cond of None \<Rightarrow> True | Some c \<Rightarrow> v = c)"

definition selects :: "(string \<Rightarrow> book \<Rightarrow> bool) \<Rightarrow> mongoQuery \<Rightarrow> book \<Rightarrow> bool" where
  "selects txt q b =
     ((case mq_text q of None \<Rightarrow> True | Some s \<Rightarrow> txt s b)
      \<and> meets (mq_category q) (category b)
      \<and> meets (mq_genre q) (genre b)
      \<and> meets (mq_available q) (available b)
      \<and> meets (mq_status q) (status b))"

text \<open>
  \<^verbatim>\<open>exports.getAllBooks\<close>: the selected documents, \<^verbatim>\<open>.sort({ createdAt: -1 })\<close>, with
  their number. The store fixes no order among documents of equal \<open>createdAt\<close>; the
  model keeps them in insertion order.
\<close>

definition getAllBooks :: "(string \<Rightarrow> book \<Rightarrow> bool) \<Rightarrow> listQuery \<Rightarrow> collection \<Rightarrow> nat \<times> book list" where
  "getAllBooks txt rq st =
     (let books = sort_key (\<lambda>b. - createdAt b)
                    (filter (selects txt (castFilter (buildQuery rq))) st)
      in (length books, books))"

subsection \<open>Sequences of requests\<close>

text \<open>A request to one of the handlers that write, with the clock readings it meets.\<close>

datatype command =
    Create objectId date bookBody
  | Update idText bookBody date
  | Delete idText
  | Borrow idText borrowBody date date date date
  | Return idText date
  | Renew idText "int option" date

fun exec :: "int \<Rightarrow> command \<Rightarrow> collection \<Rightarrow> collection" where
  "exec yearLimit (Create oid now body) st = snd (createBook yearLimit oid now body st)"
| "exec yearLimit (Update i body now) st = snd (updateBook yearLimit i body now st)"
| "exec yearLimit (Delete i) st = snd (deleteBook i st)"
| "exec yearLimit (Borrow i body t1 t2 t3 t4) st = snd (borrowBook i body t1 t2 t3 t4 st)"
| "exec yearLimit (Return i now) st = snd (returnBook i now st)"
| "exec yearLimit (Renew i weeks now) st = snd (renewBook i weeks now st)"

definition run :: "int \<Rightarrow> command list \<Rightarrow> collection \<Rightarrow> collection" where
  "run yearLimit cmds st = fold (exec yearLimit) cmds st"

text \<open>A create or update request that supplies \<open>renewalCount\<close> or \<open>maxRenewals\<close>.\<close>

fun suppliesCounts :: "command \<Rightarrow> bool" where
  "suppliesCounts (Create oid now body) =
     (req_renewalCount body \<noteq> None \<or> req_maxRenewals body \<noteq> None)"
| "suppliesCounts (Update i body now) =
     (req_renewalCount body \<noteq> None \<or> req_maxRenewals body \<noteq> None)"
| "suppliesCounts c = False"

text \<open>
  The renewal counts of every stored document are within their bounds, and the bounds are
  numbers among which doubles count exactly.
\<close>

definition capKept :: "collection \<Rightarrow> bool" where
  "capKept st =
     (\<forall>b\<in>set st. 0 \<le> renewalCount b \<and> renewalCount b \<le> maxRenewals b
                   \<and> maxRenewals b < 2 ^ 53)"

subsection \<open>The notions of the specification\<close>

text \<open>
  The three encodings of the lending state: the flag \<open>available\<close>, the \<open>status\<close>, and
  the absence of \<open>borrowedBy\<close>, \<open>borrowedAt\<close> and \<open>dueDate\<close>.
\<close>

definition lendingAbsent :: "book \<Rightarrow> bool" where
  "lendingAbsent b =
     (borrowedBy b = \<lparr>userId = None, name = None, email = None\<rparr>
      \<and> borrowedAt b = None \<and> dueDate b = None)"

definition encodingsAgree :: "book \<Rightarrow> bool" where
  "encodingsAgree b =
     ((available b = (status b = ''Available'')) \<and> ((status b = ''Available'') = lendingAbsent b))"

text \<open>
  The filter configuration of List, in the words of the specification: a free-text search
  \<open>q\<close>, exact matches of \<open>category\<close>, \<open>genre\<close> and \<open>status\<close>, and a boolean exact match
  of \<open>available\<close>, each optional. A filter that is not specified constrains nothing, the
  specified ones hold together.
\<close>

record filterConfig =
  fc_q :: "string option"
  fc_category :: "string option"
  fc_genre :: "string option"
  fc_available :: "bool option"
  fc_status :: "string option"

definition satisfiesFilters :: "(string \<Rightarrow> book \<Rightarrow> bool) \<Rightarrow> filterConfig \<Rightarrow> book \<Rightarrow> bool" where
  "satisfiesFilters txt fc b =
     ((case fc_q fc of None \<Rightarrow> True | Some s \<Rightarrow> txt s b)
      \<and> (case fc_category fc of None \<Rightarrow> True | Some c \<Rightarrow> category b = c)
      \<and> (case fc_genre fc of None \<Rightarrow> True | Some g \<Rightarrow> genre b = g)
      \<and> (case fc_available fc of None \<Rightarrow> True | Some v \<Rightarrow> available b = v)
      \<and> (case fc_status fc of None \<Rightarrow> True | Some s \<Rightarrow> status b = s))"

text \<open>The query string that carries a filter configuration to the handler.\<close>

definition queryOf :: "filterConfig \<Rightarrow> listQuery" where
  "queryOf fc =
     \<lparr>lq_q = fc_q fc,
      lq_category = fc_category fc,
      lq_genre = fc_genre fc,
      lq_available = (case fc_available fc of
                        None \<Rightarrow> None
                      | Some v \<Rightarrow> Some (if v then ''true'' else ''false'')),
      lq_status = fc_status fc\<rparr>"

text \<open>
  A filter configuration whose specified strings are not empty and whose category and
  genre have no white space at their ends.
\<close>

definition plainText :: "string option \<Rightarrow> bool" where
  "plainText v = (case v of None \<Rightarrow> True | Some s \<Rightarrow> s \<noteq> [])"

definition plainFilters :: "filterConfig \<Rightarrow> bool" where
  "plainFilters fc =
     (plainText (fc_q fc) \<and> plainText (fc_status fc)
      \<and> plainText (fc_category fc) \<and> map_option trim (fc_category fc) = fc_category fc
      \<and> plainText (fc_genre fc) \<and> map_option trim (fc_genre fc) = fc_genre fc)"

text \<open>
  The filter configuration that a query string amounts to for the handler: an empty value
  of \<open>q\<close>, \<open>category\<close>, \<open>genre\<close> or \<open>status\<close> specifies nothing, the values of \<open>category\<close>
  and \<open>genre\<close> count without the white space at their ends, and a value of \<open>available\<close>
  means \<open>true\<close> when it is the string \<open>true\<close> and \<open>false\<close> otherwise.
\<close>

definition effectiveFilters :: "listQuery \<Rightarrow> filterConfig" where
  "effectiveFilters rq =
     \<lparr>fc_q = (case lq_q rq of None \<Rightarrow> None | Some s \<Rightarrow> if s = [] then None else Some s),
      fc_category = (case lq_category rq of
                       None \<Rightarrow> None
                     | Some s \<Rightarrow> if s = [] then None else Some (trim s)),
      fc_genre = (case lq_genre rq of
                    None \<Rightarrow> None
                  | Some s \<Rightarrow> if s = [] then None else Some (trim s)),
      fc_available = (case lq_available rq of None \<Rightarrow> None | Some s \<Rightarrow> Some (s = ''true'')),
      fc_status = (case lq_status rq of None \<Rightarrow> None | Some s \<Rightarrow> if s = [] then None else Some s)\<rparr>"

text \<open>A create request that passes the handler's check and the validators of the schema.\<close>

definition validCreate :: "int \<Rightarrow> bookBody \<Rightarrow> bool" where
  "validCreate yearLimit body =
     (\<not> falsy (req_title body) \<and> \<not> falsy (req_author body)
      \<and> validationMessages True yearLimit body = [])"

subsection \<open>Example documents\<close>

text \<open>The book of the specification's scenario, as a create request without lending fields stores it.\<close>

definition book1984 :: book where
  "book1984 = (newBook 1 0)\<lparr>title := ''1984'', author := ''George Orwell''\<rparr>"

definition annBorrows :: borrowBody where
  "annBorrows = \<lparr>br_userId = Some (IsObjectId 7), br_userName = Some ''Ann'',
                 br_userEmail = Some ''ann@lib.org'', br_weeks = None\<rparr>"

text \<open>
  That book on loan to her, as \<open>borrowBook (IsObjectId 1) annBorrows 100 101 102 103\<close>
  leaves it: due three weeks after 102.
\<close>

definition borrowed1984 :: book where
  "borrowed1984 =
     book1984\<lparr>available := False, status := ''Borrowed'',
              borrowedBy := \<lparr>userId = Some 7, name = Some ''Ann'', email = Some ''ann@lib.org''\<rparr>,
              borrowedAt := Some 100, borrowDate := Some 101,
              dueDate := Some (102 + 21 * 86400000), updatedAt := 103\<rparr>"



text \<open>Request bodies: the empty one, and some that supply lending fields.\<close>

definition emptyBody :: bookBody where
  "emptyBody = \<lparr>req_title = None, req_author = None, req_description = None,
     req_genre = None, req_category = None, req_isbn = None, req_coverUrl = None,
     req_coverImage = None, req_publishedYear = None, req_rating = None,
     req_totalReviews = None, req_available = None, req_status = None,
     req_borrowedBy = None, req_borrowedAt = None, req_dueDate = None,
     req_borrowDate = None, req_renewalCount = None, req_maxRenewals = None,
     req_tags = None, req_isNewRelease = None\<rparr>"

definition orwellBody :: bookBody where
  "orwellBody = emptyBody\<lparr>req_title := Some ''1984'', req_author := Some ''George Orwell''\<rparr>"

definition pamphletBody :: bookBody where
  "pamphletBody = emptyBody\<lparr>req_title := Some ''Pamphlet'', req_author := Some ''Anon'',
                             req_maxRenewals := Some 0\<rparr>"

definition reservedBody :: bookBody where
  "reservedBody = emptyBody\<lparr>req_title := Some ''Atlas'', req_author := Some ''Anon'',
                             req_status := Some ''Reserved''\<rparr>"

definition lentBody :: bookBody where
  "lentBody = emptyBody\<lparr>req_title := Some ''Dune'', req_author := Some ''Frank Herbert'',
      req_available := Some False, req_status := Some ''Borrowed'', req_renewalCount := Some 1\<rparr>"

definition dueBody :: bookBody where
  "dueBody = emptyBody\<lparr>req_title := Some ''Ulysses'', req_author := Some ''James Joyce'',
      req_dueDate := Some 1000\<rparr>"



definition overCapBody :: bookBody where
  "overCapBody = emptyBody\<lparr>req_title := Some ''Atlas'', req_author := Some ''Anon'',
      req_renewalCount := Some 5\<rparr>"

definition lowerCap :: bookBody where
  "lowerCap = emptyBody\<lparr>req_maxRenewals := Some 1\<rparr>"

text \<open>A book with a due date whose count of renewals is \<open>2 ^ 53\<close>, two below its cap.\<close>

definition ledgerBody :: bookBody where
  "ledgerBody = emptyBody\<lparr>req_title := Some ''Ledger'', req_author := Some ''Anon'',
      req_dueDate := Some 1000, req_renewalCount := Some 9007199254740992,
      req_maxRenewals := Some 9007199254740994\<rparr>"

text \<open>
  The scenario of the specification up to its renewals, with one renewal more than the
  cap allows.
\<close>

definition renewals :: "command list" where
  "renewals = [Create 1 0 orwellBody, Borrow (IsObjectId 1) annBorrows 100 101 102 103,
               Renew (IsObjectId 1) None 200, Renew (IsObjectId 1) None 201,
               Renew (IsObjectId 1) None 202]"

text \<open>
  Filter configurations: none, the available books, a category with white space around
  it, and the empty category; and a shelf of three books to ask them of.
\<close>

definition noFilters :: filterConfig where
  "noFilters = \<lparr>fc_q = None, fc_category = None, fc_genre = None, fc_available = None,
                fc_status = None\<rparr>"

definition onlyAvailable :: filterConfig where
  "onlyAvailable = noFilters\<lparr>fc_available := Some True\<rparr>"

definition paddedCategory :: filterConfig where
  "paddedCategory = noFilters\<lparr>fc_category := Some '' General ''\<rparr>"

definition emptyCategory :: filterConfig where
  "emptyCategory = noFilters\<lparr>fc_category := Some []\<rparr>"

definition emma :: book where
  "emma = (newBook 8 900)\<lparr>title := ''Emma'', author := ''Jane Austen''\<rparr>"

definition shelf :: collection where
  "shelf = [book1984, borrowed1984\<lparr>book_id := 2, createdAt := 50\<rparr>, emma]"

definition titleIs :: "string \<Rightarrow> book \<Rightarrow> bool" where
  "titleIs s b = (title b = s)"

section \<open>Properties\<close>

subsection \<open>Looking up and saving\<close>

lemma findDoc_Some_id: "findDoc st i = Some b \<Longrightarrow> book_id b = i"
  by (auto simp: findDoc_def find_Some_iff)

lemma findDoc_in_set: "findDoc st i = Some b \<Longrightarrow> b \<in> set st"
  by (auto simp: findDoc_def find_Some_iff)

lemma findDoc_map_replace:
  "findDoc st i = Some b \<Longrightarrow> book_id d = i \<Longrightarrow>
   findDoc (map (\<lambda>x. if book_id x = i then d else x) st) i = Some d"
  by (induction st) (auto simp: findDoc_def split: if_splits)

lemma findById_found:
  "findById st r = Inr (Some b) \<longleftrightarrow> (\<exists>i. r = IsObjectId i \<and> findDoc st i = Some b)"
  by (cases r) (simp_all add: findById_def)

lemma findById_IsObjectId [simp]: "findById st (IsObjectId i) = Inr (findDoc st i)"
  by (simp add: findById_def)

lemma findById_NotObjectId [simp]: "findById st (NotObjectId s) = Inl CastError"
  by (simp add: findById_def)

lemma save_Some:
  "save (Some d) now st =
     (Inr (d\<lparr>updatedAt := now\<rparr>),
      map (\<lambda>b. if book_id b = book_id d then d\<lparr>updatedAt := now\<rparr> else b) st)"
  by (simp add: save_def Let_def)


lemma save_stored:
  "findDoc st (book_id d) = Some b \<Longrightarrow>
   findDoc (snd (save (Some d) now st)) (book_id d) = Some (d\<lparr>updatedAt := now\<rparr>)"
  using findDoc_map_replace [of st "book_id d" b "d\<lparr>updatedAt := now\<rparr>"]
  by (simp add: save_Some)

lemma dbl_exact: "\<bar>n\<bar> < 2 ^ 53 \<Longrightarrow> dbl n = n"
  by (simp add: dbl_def)

lemma addDays_Some:
  "addDays d n = Some r \<longleftrightarrow> r = d + n * 86400000 \<and> \<bar>d + n * 86400000\<bar> \<le> 8640000000000000"
  by (auto simp: addDays_def Let_def)

subsection \<open>What a successful handler did\<close>

lemma borrowBook_success:
  assumes found: "findById st r = Inr (Some bk)" and avail: "available bk"
    and uid: "br_userId body = Some (IsObjectId u)"
    and uname: "br_userName body = Some n" "n \<noteq> []"
    and umail: "br_userEmail body = Some e" "e \<noteq> []"
    and due: "addDays t3 (orDefault (br_weeks body) 3 * 7) = Some d"
  shows "fst (borrowBook r body t1 t2 t3 t4 st)
           = Inr (bk\<lparr>available := False, status := ''Borrowed'',
                     borrowedBy := \<lparr>userId = Some u, name = Some n, email = Some e\<rparr>,
                     borrowedAt := Some t1, borrowDate := Some t2, dueDate := Some d,
                     updatedAt := t4\<rparr>)"
    and "findById (snd (borrowBook r body t1 t2 t3 t4 st)) r
           = Inr (Some (bk\<lparr>available := False, status := ''Borrowed'',
                     borrowedBy := \<lparr>userId = Some u, name = Some n, email = Some e\<rparr>,
                     borrowedAt := Some t1, borrowDate := Some t2, dueDate := Some d,
                     updatedAt := t4\<rparr>))"
proof -
  let ?doc = "bk\<lparr>available := False, status := ''Borrowed'',
                  borrowedBy := \<lparr>userId = Some u, name = Some n, email = Some e\<rparr>,
                  borrowedAt := Some t1, borrowDate := Some t2, dueDate := Some d\<rparr>"
  from found obtain i where r: "r = IsObjectId i" and f: "findDoc st i = Some bk"
    by (auto simp: findById_found)
  have idd: "book_id ?doc = i" using findDoc_Some_id [OF f] by simp
  have m: "Book_borrowBook bk (br_userId body) (br_userName body) (br_userEmail body)
             (br_weeks body) t1 t2 t3 = Some ?doc"
    using uid uname umail due by (simp add: Book_borrowBook_def castUserId_def)
  have run: "borrowBook r body t1 t2 t3 t4 st
               = (Inr (?doc\<lparr>updatedAt := t4\<rparr>), snd (save (Some ?doc) t4 st))"
    using assms r f m by (simp add: borrowBook_def falsy_def falsyId_def save_Some)
  show "fst (borrowBook r body t1 t2 t3 t4 st) = Inr (?doc\<lparr>updatedAt := t4\<rparr>)"
    unfolding run by simp
  show "findById (snd (borrowBook r body t1 t2 t3 t4 st)) r = Inr (Some (?doc\<lparr>updatedAt := t4\<rparr>))"
    unfolding run using save_stored [of st ?doc bk t4] f idd r by simp
qed

lemma returnBook_success:
  assumes found: "findById st r = Inr (Some bk)" and out: "\<not> available bk"
  shows "fst (returnBook r now st) = Inr ((Book_returnBook bk)\<lparr>updatedAt := now\<rparr>)"
    and "findById (snd (returnBook r now st)) r
           = Inr (Some ((Book_returnBook bk)\<lparr>updatedAt := now\<rparr>))"
proof -
  from found obtain i where r: "r = IsObjectId i" and f: "findDoc st i = Some bk"
    by (auto simp: findById_found)
  have idd: "book_id (Book_returnBook bk) = i"
    using findDoc_Some_id [OF f] by (simp add: Book_returnBook_def)
  have run: "returnBook r now st
               = (Inr ((Book_returnBook bk)\<lparr>updatedAt := now\<rparr>),
                  snd (save (Some (Book_returnBook bk)) now st))"
    using assms r f by (simp add: returnBook_def save_Some)
  show "fst (returnBook r now st) = Inr ((Book_returnBook bk)\<lparr>updatedAt := now\<rparr>)"
    unfolding run by simp
  show "findById (snd (returnBook r now st)) r
          = Inr (Some ((Book_returnBook bk)\<lparr>updatedAt := now\<rparr>))"
    unfolding run using save_stored [of st "Book_returnBook bk" bk now] f idd r by simp
qed

lemma borrowBook_Inr:
  assumes "fst (borrowBook r body t1 t2 t3 t4 st) = Inr b'"
  shows "\<exists>i bk u d. r = IsObjectId i \<and> findDoc st i = Some bk \<and> available bk
           \<and> br_userId body = Some (IsObjectId u)
           \<and> addDays t3 (orDefault (br_weeks body) 3 * 7) = Some d
           \<and> b' = bk\<lparr>available := False, status := ''Borrowed'',
                      borrowedBy := \<lparr>userId = Some u, name = br_userName body,
                                      email = br_userEmail body\<rparr>,
                      borrowedAt := Some t1, borrowDate := Some t2, dueDate := Some d,
                      updatedAt := t4\<rparr>
           \<and> snd (borrowBook r body t1 t2 t3 t4 st)
               = map (\<lambda>b. if book_id b = i then b' else b) st"
  using assms
  by (cases r)
     (auto simp: borrowBook_def Book_borrowBook_def castUserId_def save_def Let_def falsyId_def
        dest: findDoc_Some_id
        split: if_splits option.splits idText.splits sum.splits prod.splits)

lemma returnBook_Inr:
  assumes "fst (returnBook r now st) = Inr b'"
  shows "\<exists>i bk. r = IsObjectId i \<and> findDoc st i = Some bk \<and> \<not> available bk
           \<and> b' = (Book_returnBook bk)\<lparr>updatedAt := now\<rparr>
           \<and> snd (returnBook r now st) = map (\<lambda>b. if book_id b = i then b' else b) st"
  using assms
  by (cases r)
     (auto simp: returnBook_def Book_returnBook_def save_def Let_def dest: findDoc_Some_id
        split: if_splits option.splits sum.splits prod.splits)

lemma renewBook_Inr:
  assumes "fst (renewBook r weeks now st) = Inr b'"
  shows "\<exists>i bk d d'. r = IsObjectId i \<and> findDoc st i = Some bk \<and> dueDate bk = Some d
           \<and> renewalCount bk < maxRenewals bk
           \<and> addDays d (orDefault weeks 2 * 7) = Some d'
           \<and> b' = bk\<lparr>dueDate := Some d', renewalCount := dbl (renewalCount bk + 1),
                      updatedAt := now\<rparr>
           \<and> snd (renewBook r weeks now st) = map (\<lambda>b. if book_id b = i then b' else b) st"
  using assms
  by (cases r)
     (auto simp: renewBook_def Book_renewBook_def save_def Let_def dest: findDoc_Some_id
        split: if_splits option.splits sum.splits prod.splits)

lemma stored_after_replace:
  assumes "findDoc st i = Some bk" "book_id b' = i"
  shows "findById (map (\<lambda>b. if book_id b = i then b' else b) st) (IsObjectId i) = Inr (Some b')"
  using findDoc_map_replace [OF assms] by simp

lemma borrowBook_Inr_stored:
  assumes "fst (borrowBook r body t1 t2 t3 t4 st) = Inr b'"
  shows "findById (snd (borrowBook r body t1 t2 t3 t4 st)) r = Inr (Some b')"
proof -
  from borrowBook_Inr [OF assms] obtain i bk u d where
    r: "r = IsObjectId i" and f: "findDoc st i = Some bk"
    and b: "b' = bk\<lparr>available := False, status := ''Borrowed'',
                      borrowedBy := \<lparr>userId = Some u, name = br_userName body,
                                      email = br_userEmail body\<rparr>,
                      borrowedAt := Some t1, borrowDate := Some t2, dueDate := Some d,
                      updatedAt := t4\<rparr>"
    and s: "snd (borrowBook r body t1 t2 t3 t4 st) = map (\<lambda>b. if book_id b = i then b' else b) st"
    by blast
  have "book_id b' = i" using findDoc_Some_id [OF f] b by simp
  from stored_after_replace [OF f this] s show ?thesis unfolding r by simp
qed

lemma returnBook_Inr_stored:
  assumes "fst (returnBook r now st) = Inr b'"
  shows "findById (snd (returnBook r now st)) r = Inr (Some b')"
proof -
  from returnBook_Inr [OF assms] obtain i bk where
    r: "r = IsObjectId i" and f: "findDoc st i = Some bk"
    and b: "b' = (Book_returnBook bk)\<lparr>updatedAt := now\<rparr>"
    and s: "snd (returnBook r now st) = map (\<lambda>b. if book_id b = i then b' else b) st"
    by blast
  have "book_id b' = i" using findDoc_Some_id [OF f] b by (simp add: Book_returnBook_def)
  from stored_after_replace [OF f this] s show ?thesis unfolding r by simp
qed

lemma renewBook_Inr_stored:
  assumes "fst (renewBook r weeks now st) = Inr b'"
  shows "findById (snd (renewBook r weeks now st)) r = Inr (Some b')"
proof -
  from renewBook_Inr [OF assms] obtain i bk d d' where
    r: "r = IsObjectId i" and f: "findDoc st i = Some bk"
    and b: "b' = bk\<lparr>dueDate := Some d', renewalCount := dbl (renewalCount bk + 1),
                      updatedAt := now\<rparr>"
    and s: "snd (renewBook r weeks now st) = map (\<lambda>b. if book_id b = i then b' else b) st"
    by blast
  have "book_id b' = i" using findDoc_Some_id [OF f] b by simp
  from stored_after_replace [OF f this] s show ?thesis unfolding r by simp
qed

lemma createBook_Inr:
  assumes "fst (createBook yearLimit oid now body st) = Inr b"
  shows "b = applyBody body (newBook oid now)"
    and "snd (createBook yearLimit oid now body st) = st @ [b]"
    and "validCreate yearLimit body"
    and "\<not> isbnTaken (setOptStr (req_isbn body) None) st"
  using assms
  by (auto simp: createBook_def validCreate_def Let_def applyBody_def newBook_def setOptStr_def
      split: if_splits list.splits option.splits)

lemma createBook_valid:
  assumes "validCreate yearLimit body"
  shows "createBook yearLimit oid now body st =
           (if isbnTaken (setOptStr (req_isbn body) None) st then (Inl DuplicateISBN, st)
            else (Inr (applyBody body (newBook oid now)), st @ [applyBody body (newBook oid now)]))"
  using assms
  by (auto simp: createBook_def validCreate_def Let_def applyBody_def newBook_def setOptStr_def
      split: if_splits list.splits option.splits)

subsection \<open>The example documents\<close>

lemma findById_book1984: "findById [book1984] (IsObjectId 1) = Inr (Some book1984)"
  by (simp add: findDoc_def book1984_def newBook_def)

lemma findById_borrowed1984: "findById [borrowed1984] (IsObjectId 1) = Inr (Some borrowed1984)"
  by (simp add: findDoc_def borrowed1984_def book1984_def newBook_def)

lemma book1984_fields:
  "available book1984" "status book1984 = ''Available''"
  "borrowedBy book1984 = \<lparr>userId = None, name = None, email = None\<rparr>"
  "borrowedAt book1984 = None" "borrowDate book1984 = None" "dueDate book1984 = None"
  "renewalCount book1984 = 0" "maxRenewals book1984 = 2"
  by (simp_all add: book1984_def newBook_def)

lemma borrowed1984_fields:
  "available borrowed1984 = False" "dueDate borrowed1984 = Some (102 + 21 * 86400000)"
  "renewalCount borrowed1984 = 0" "maxRenewals borrowed1984 = 2" "book_id borrowed1984 = 1"
  by (simp_all add: borrowed1984_def book1984_def newBook_def)

lemma annBorrows_fields:
  "br_userId annBorrows = Some (IsObjectId 7)"
  "br_userName annBorrows = Some ''Ann''" "''Ann'' \<noteq> []"
  "br_userEmail annBorrows = Some ''ann@lib.org''" "''ann@lib.org'' \<noteq> []"
  "br_weeks annBorrows = None"
  by (simp_all add: annBorrows_def)

lemma annBorrows_due: "addDays 102 (orDefault (br_weeks annBorrows) 3 * 7) = Some (102 + 21 * 86400000)"
  by (simp add: annBorrows_def addDays_def orDefault_def)

lemma borrow_1984:
  "fst (borrowBook (IsObjectId 1) annBorrows 100 101 102 103 [book1984]) = Inr borrowed1984"
  using borrowBook_success(1)
    [OF findById_book1984 book1984_fields(1) annBorrows_fields(1-5) annBorrows_due, of 100 101 103]
  by (simp add: borrowed1984_def)

lemma renew_borrowed1984:
  "fst (renewBook (IsObjectId 1) None 200 [borrowed1984])
     = Inr (borrowed1984\<lparr>dueDate := Some (102 + 35 * 86400000), renewalCount := 1,
                          updatedAt := 200\<rparr>)"
proof -
  have "Book_renewBook borrowed1984 None
          = Inr (Some (borrowed1984\<lparr>dueDate := Some (102 + 35 * 86400000), renewalCount := 1\<rparr>))"
    by (simp add: Book_renewBook_def borrowed1984_fields addDays_def orDefault_def dbl_exact)
  then show ?thesis
    using findById_borrowed1984 by (simp add: renewBook_def save_Some)
qed

subsection \<open>Borrow\<close>




text \<open>
  Claim C5, as stated, fails: the handler tests the borrower fields before it looks the
  book up. A request without an email for a book with \<open>available = false\<close> fails with
  \<open>InvalidInput\<close>, not with \<open>NotAvailable\<close>. And a request whose id is no ObjectId,
  which resolves to no book, is answered with the 500, not with \<open>NotFound\<close>: the lookup
  throws on it.
\<close>

theorem borrow_failures_counterexample:
  "findById [borrowed1984] (IsObjectId 1) = Inr (Some borrowed1984)
   \<and> available borrowed1984 = False
   \<and> borrowBook (IsObjectId 1) (annBorrows\<lparr>br_userEmail := None\<rparr>) 300 301 302 303
        [borrowed1984] = (Inl InvalidInput, [borrowed1984])
   \<and> findById [borrowed1984] (NotObjectId ''book-1'') = Inl CastError
   \<and> borrowBook (NotObjectId ''book-1'') annBorrows 300 301 302 303 [borrowed1984]
        = (Inl ServerError, [borrowed1984])"
  using findById_borrowed1984 borrowed1984_fields(1)
  by (simp add: borrowBook_def annBorrows_def falsy_def falsyId_def)

text \<open>
  Claim C5, amended. Borrow fails with \<open>InvalidInput\<close> when any of the three borrower
  fields is missing. When the three are supplied, none of them empty, it fails with
  \<open>NotFound\<close> when the id is an ObjectId that does not resolve, and with \<open>NotAvailable\<close>
  on every book with \<open>available = false\<close>, whose record then is what it was. So no
  request borrows a book with \<open>available = false\<close>: each fails, with \<open>NotAvailable\<close> or
  with \<open>InvalidInput\<close>; and every request that fails leaves the collection as it was.
\<close>

theorem borrow_failures:
  "(br_userId body = None \<or> br_userName body = None \<or> br_userEmail body = None \<longrightarrow>
       borrowBook r body t1 t2 t3 t4 st = (Inl InvalidInput, st))
   \<and> (\<forall>u n e. br_userId body = Some u \<and> u \<noteq> NotObjectId []
          \<and> br_userName body = Some n \<and> n \<noteq> []
          \<and> br_userEmail body = Some e \<and> e \<noteq> [] \<longrightarrow>
        (findById st r = Inr None \<longrightarrow> borrowBook r body t1 t2 t3 t4 st = (Inl NotFound, st))
      \<and> (\<forall>bk. findById st r = Inr (Some bk) \<and> available bk = False \<longrightarrow>
             borrowBook r body t1 t2 t3 t4 st = (Inl NotAvailable, st)
           \<and> findById (snd (borrowBook r body t1 t2 t3 t4 st)) r = Inr (Some bk)))
   \<and> (\<forall>bk. findById st r = Inr (Some bk) \<and> available bk = False \<longrightarrow>
         (fst (borrowBook r body t1 t2 t3 t4 st) = Inl NotAvailable
            \<or> fst (borrowBook r body t1 t2 t3 t4 st) = Inl InvalidInput)
         \<and> snd (borrowBook r body t1 t2 t3 t4 st) = st)
   \<and> (\<forall>err. fst (borrowBook r body t1 t2 t3 t4 st) = Inl err \<longrightarrow>
         snd (borrowBook r body t1 t2 t3 t4 st) = st)"
proof (intro conjI allI impI)
  assume "br_userId body = None \<or> br_userName body = None \<or> br_userEmail body = None"
  then show "borrowBook r body t1 t2 t3 t4 st = (Inl InvalidInput, st)"
    by (auto simp: borrowBook_def falsy_def falsyId_def)
next
  fix u n e
  assume ok: "br_userId body = Some u \<and> u \<noteq> NotObjectId []
          \<and> br_userName body = Some n \<and> n \<noteq> []
          \<and> br_userEmail body = Some e \<and> e \<noteq> []"
  then have pass: "\<not> (falsyId (br_userId body) \<or> falsy (br_userName body)
                       \<or> falsy (br_userEmail body))"
    by (cases u) (simp_all add: falsy_def falsyId_def)
  {
    assume "findById st r = Inr None"
    with pass show "borrowBook r body t1 t2 t3 t4 st = (Inl NotFound, st)"
      by (simp add: borrowBook_def)
  next
    fix bk assume out: "findById st r = Inr (Some bk) \<and> available bk = False"
    with pass show res: "borrowBook r body t1 t2 t3 t4 st = (Inl NotAvailable, st)"
      by (simp add: borrowBook_def)
    from out show "findById (snd (borrowBook r body t1 t2 t3 t4 st)) r = Inr (Some bk)"
      by (simp add: res)
  }
next
  fix bk assume out: "findById st r = Inr (Some bk) \<and> available bk = False"
  then show "fst (borrowBook r body t1 t2 t3 t4 st) = Inl NotAvailable
               \<or> fst (borrowBook r body t1 t2 t3 t4 st) = Inl InvalidInput"
    by (simp add: borrowBook_def)
  from out show "snd (borrowBook r body t1 t2 t3 t4 st) = st"
    by (simp add: borrowBook_def)
next
  fix err assume "fst (borrowBook r body t1 t2 t3 t4 st) = Inl err"
  then show "snd (borrowBook r body t1 t2 t3 t4 st) = st"
    by (auto simp: borrowBook_def save_def Let_def
        split: option.splits if_splits sum.splits prod.splits)
qed

theorem borrow_failures_witness:
  "borrowBook (IsObjectId 1) (annBorrows\<lparr>br_userEmail := None\<rparr>) 300 301 302 303 [borrowed1984]
      = (Inl InvalidInput, [borrowed1984])
   \<and> borrowBook (IsObjectId 5) annBorrows 300 301 302 303 [borrowed1984]
      = (Inl NotFound, [borrowed1984])
   \<and> borrowBook (IsObjectId 1) annBorrows 300 301 302 303 [borrowed1984]
      = (Inl NotAvailable, [borrowed1984])
   \<and> findById (snd (borrowBook (IsObjectId 1) annBorrows 300 301 302 303 [borrowed1984]))
        (IsObjectId 1) = Inr (Some borrowed1984)"
proof -
  have a: "findById [borrowed1984] (IsObjectId 5) = Inr None"
    by (simp add: findDoc_def borrowed1984_fields)
  have b: "IsObjectId 7 \<noteq> NotObjectId []" by simp
  show ?thesis
    using borrow_failures [of "annBorrows\<lparr>br_userEmail := None\<rparr>" "IsObjectId 1" 300 301 302 303
        "[borrowed1984]"]
      borrow_failures [of annBorrows "IsObjectId 5" 300 301 302 303 "[borrowed1984]"]
      borrow_failures [of annBorrows "IsObjectId 1" 300 301 302 303 "[borrowed1984]"]
      a b borrowed1984_fields(1) findById_borrowed1984 annBorrows_fields
    by simp
qed

lemma trim_examples [simp]:
  "trim ''1984'' = ''1984''" "trim ''George Orwell'' = ''George Orwell''"
  "trim ''Pamphlet'' = ''Pamphlet''" "trim ''Anon'' = ''Anon''" "trim ''Atlas'' = ''Atlas''"
  "trim ''Dune'' = ''Dune''" "trim ''Frank Herbert'' = ''Frank Herbert''"
  "trim ''Ulysses'' = ''Ulysses''" "trim ''James Joyce'' = ''James Joyce''"
  "trim ''Ledger'' = ''Ledger''"
  by (simp_all add: trim_def isSpace_def)

lemma validCreate_examples:
  "validCreate 2027 orwellBody" "validCreate 2027 pamphletBody" "validCreate 2027 reservedBody"
  "validCreate 2027 lentBody" "validCreate 2027 dueBody" "validCreate 2027 ledgerBody"
  by (simp_all add: validCreate_def orwellBody_def pamphletBody_def reservedBody_def lentBody_def
      dueBody_def ledgerBody_def emptyBody_def falsy_def validationMessages_def requiredStr_def
      minInt_def statusEnum_def)

lemmas create_eval =
  emptyBody_def isbnTaken_def setOptStr_def applyBody_def newBook_def setStr_def setVal_def
  setOpt_def

lemma create_orwell: "createBook 2027 1 0 orwellBody [] = (Inr book1984, [book1984])"
  by (simp add: createBook_valid [OF validCreate_examples(1)])
     (simp add: orwellBody_def book1984_def create_eval)


lemma create_reserved:
  "createBook 2027 3 0 reservedBody [] =
     (Inr ((newBook 3 0)\<lparr>title := ''Atlas'', author := ''Anon'', status := ''Reserved''\<rparr>),
      [(newBook 3 0)\<lparr>title := ''Atlas'', author := ''Anon'', status := ''Reserved''\<rparr>])"
  by (simp add: createBook_valid [OF validCreate_examples(3)])
     (simp add: reservedBody_def create_eval)

lemma create_dueBody:
  "createBook 2027 5 0 dueBody [] =
     (Inr ((newBook 5 0)\<lparr>title := ''Ulysses'', author := ''James Joyce'', dueDate := Some 1000\<rparr>),
      [(newBook 5 0)\<lparr>title := ''Ulysses'', author := ''James Joyce'', dueDate := Some 1000\<rparr>])"
  by (simp add: createBook_valid [OF validCreate_examples(5)])
     (simp add: dueBody_def create_eval)



subsection \<open>Borrow, then return\<close>

text \<open>
  Claim C4, as stated, fails: a book with \<open>available = true\<close> may have another status
  than \<open>'Available'\<close> (a create request may supply one), and the round trip leaves it
  with \<open>'Available'\<close>; and each \<^verbatim>\<open>save\<close> stamps \<open>updatedAt\<close>. Here a book created
  with the status \<open>'Reserved'\<close> at time 0 is borrowed and returned.
\<close>

theorem roundtrip_counterexample:
  "map_sum id available (fst (createBook 2027 3 0 reservedBody [])) = Inr True
   \<and> map_sum id status (fst (createBook 2027 3 0 reservedBody [])) = Inr ''Reserved''
   \<and> map_sum id updatedAt (fst (createBook 2027 3 0 reservedBody [])) = Inr 0
   \<and> map_sum id status
        (fst (returnBook (IsObjectId 3) 500 (snd (borrowBook (IsObjectId 3) annBorrows 100 101 102 103
                (snd (createBook 2027 3 0 reservedBody [])))))) = Inr ''Available''
   \<and> map_sum id updatedAt
        (fst (returnBook (IsObjectId 3) 500 (snd (borrowBook (IsObjectId 3) annBorrows 100 101 102 103
                (snd (createBook 2027 3 0 reservedBody [])))))) = Inr 500"
  by (simp add: create_reserved borrowBook_def annBorrows_def falsy_def falsyId_def findDoc_def
      newBook_def save_def Let_def Book_borrowBook_def castUserId_def addDays_def orDefault_def
      returnBook_def Book_returnBook_def)

text \<open>
  Claim C4, amended. For every book that is available in all its encodings
  (\<open>available = true\<close>, \<open>status = 'Available'\<close>, and \<open>borrowedBy\<close>, \<open>borrowedAt\<close>,
  \<open>borrowDate\<close> and \<open>dueDate\<close> absent), a Borrow that succeeds and then Return yield a
  record equal to the one before the Borrow in every field, except that \<open>renewalCount\<close>
  is 0 and \<open>updatedAt\<close> is the time of the Return.
\<close>

theorem borrow_return_roundtrip:
  assumes found: "findById st r = Inr (Some bk)"
    and avail: "available bk" "status bk = ''Available''"
    and nobody: "borrowedBy bk = \<lparr>userId = None, name = None, email = None\<rparr>"
       "borrowedAt bk = None" "borrowDate bk = None" "dueDate bk = None"
    and lent: "fst (borrowBook r body t1 t2 t3 t4 st) = Inr b1"
  shows "fst (returnBook r t5 (snd (borrowBook r body t1 t2 t3 t4 st)))
           = Inr (bk\<lparr>renewalCount := 0, updatedAt := t5\<rparr>)
       \<and> findById (snd (returnBook r t5 (snd (borrowBook r body t1 t2 t3 t4 st)))) r
           = Inr (Some (bk\<lparr>renewalCount := 0, updatedAt := t5\<rparr>))"
proof -
  let ?st1 = "snd (borrowBook r body t1 t2 t3 t4 st)"
  from borrowBook_Inr [OF lent] obtain i bk0 u d where
    r: "r = IsObjectId i" and f0: "findDoc st i = Some bk0"
    and b1: "b1 = bk0\<lparr>available := False, status := ''Borrowed'',
                      borrowedBy := \<lparr>userId = Some u, name = br_userName body,
                                      email = br_userEmail body\<rparr>,
                      borrowedAt := Some t1, borrowDate := Some t2, dueDate := Some d,
                      updatedAt := t4\<rparr>"
    by blast
  from found r f0 have same: "bk0 = bk" by simp
  have f1: "findById ?st1 r = Inr (Some b1)"
    using borrowBook_Inr_stored [OF lent] .
  have out: "\<not> available b1" by (simp add: b1)
  have eq: "(Book_returnBook b1)\<lparr>updatedAt := t5\<rparr> = bk\<lparr>renewalCount := 0, updatedAt := t5\<rparr>"
    using avail nobody unfolding b1 same by (cases bk) (simp add: Book_returnBook_def)
  show ?thesis
    using returnBook_success [OF f1 out, of t5] eq by simp
qed

theorem borrow_return_roundtrip_witness:
  "fst (borrowBook (IsObjectId 1) annBorrows 100 101 102 103 [book1984]) = Inr borrowed1984
   \<and> fst (returnBook (IsObjectId 1) 500
            (snd (borrowBook (IsObjectId 1) annBorrows 100 101 102 103 [book1984])))
      = Inr (book1984\<lparr>renewalCount := 0, updatedAt := 500\<rparr>)
   \<and> findById (snd (returnBook (IsObjectId 1) 500
                      (snd (borrowBook (IsObjectId 1) annBorrows 100 101 102 103 [book1984]))))
        (IsObjectId 1)
      = Inr (Some (book1984\<lparr>renewalCount := 0, updatedAt := 500\<rparr>))"
  using borrow_1984
    borrow_return_roundtrip [OF findById_book1984 book1984_fields(1-6) borrow_1984, of 500]
  by simp

subsection \<open>Renew\<close>




text \<open>
  Claim C10. Renew tests the cap before it tests whether the book is borrowed: on every
  record without \<open>dueDate\<close> whose \<open>renewalCount\<close> is at least \<open>maxRenewals\<close> it fails
  with \<open>RenewalLimitExceeded\<close>; it answers \<open>NotBorrowed\<close> exactly when the id resolves
  to a record without \<open>dueDate\<close> whose \<open>renewalCount\<close> is below \<open>maxRenewals\<close>.
\<close>

theorem renew_cap_first:
  "(\<forall>bk. findById st r = Inr (Some bk) \<and> dueDate bk = None
          \<and> maxRenewals bk \<le> renewalCount bk \<longrightarrow>
       renewBook r weeks now st = (Inl RenewalLimitExceeded, st))
   \<and> (fst (renewBook r weeks now st) = Inl NotBorrowed \<longleftrightarrow>
        (\<exists>bk. findById st r = Inr (Some bk) \<and> dueDate bk = None
              \<and> renewalCount bk < maxRenewals bk))"
proof (intro conjI allI impI)
  fix bk
  assume "findById st r = Inr (Some bk) \<and> dueDate bk = None
            \<and> maxRenewals bk \<le> renewalCount bk"
  then show "renewBook r weeks now st = (Inl RenewalLimitExceeded, st)"
    by (simp add: renewBook_def Book_renewBook_def)
next
  show "fst (renewBook r weeks now st) = Inl NotBorrowed \<longleftrightarrow>
          (\<exists>bk. findById st r = Inr (Some bk) \<and> dueDate bk = None
                \<and> renewalCount bk < maxRenewals bk)"
  proof (cases "findById st r")
    case (Inl x)
    then show ?thesis by (simp add: renewBook_def)
  next
    case (Inr found)
    show ?thesis
    proof (cases found)
      case None
      with Inr show ?thesis by (simp add: renewBook_def)
    next
      case (Some bk)
      with Inr show ?thesis
        by (cases "dueDate bk")
           (auto simp: renewBook_def Book_renewBook_def save_def Let_def
              split: option.splits)
    qed
  qed
qed

theorem renew_cap_first_witness:
  "renewBook (IsObjectId 1) None 200 [book1984\<lparr>maxRenewals := 0\<rparr>]
      = (Inl RenewalLimitExceeded, [book1984\<lparr>maxRenewals := 0\<rparr>])
   \<and> fst (renewBook (IsObjectId 1) None 200 [book1984]) = Inl NotBorrowed
   \<and> fst (renewBook (IsObjectId 1) None 200 [borrowed1984]) \<noteq> Inl NotBorrowed
   \<and> fst (renewBook (NotObjectId ''book-1'') None 200 [book1984]) \<noteq> Inl NotBorrowed"
proof -
  have a: "findById [book1984\<lparr>maxRenewals := 0\<rparr>] (IsObjectId 1)
             = Inr (Some (book1984\<lparr>maxRenewals := 0\<rparr>))"
    by (simp add: findDoc_def book1984_def newBook_def)
  have c: "dueDate borrowed1984 \<noteq> None"
    by (simp add: borrowed1984_fields)
  show ?thesis
    using renew_cap_first [of "[book1984\<lparr>maxRenewals := 0\<rparr>]" "IsObjectId 1" None 200]
      renew_cap_first [of "[book1984]" "IsObjectId 1" None 200]
      renew_cap_first [of "[borrowed1984]" "IsObjectId 1" None 200]
      renew_cap_first [of "[book1984]" "NotObjectId ''book-1''" None 200]
      a c book1984_fields findById_book1984 findById_borrowed1984
    by simp
qed

subsection \<open>Create\<close>

text \<open>
  Claim C6, as stated, fails: the handler passes the request body to the model whole,
  and a body that supplies \<open>available\<close>, \<open>status\<close> or \<open>renewalCount\<close> decides them.
\<close>

theorem create_initial_state_counterexample:
  "map_sum id available (fst (createBook 2027 4 0 lentBody [])) = Inr False
   \<and> map_sum id status (fst (createBook 2027 4 0 lentBody [])) = Inr ''Borrowed''
   \<and> map_sum id renewalCount (fst (createBook 2027 4 0 lentBody [])) = Inr 1"
  by (simp add: createBook_valid [OF validCreate_examples(4)])
     (simp add: lentBody_def create_eval)

text \<open>
  Claim C6, amended. Every book produced by Create starts with \<open>available = true\<close>,
  \<open>status = 'Available'\<close> and \<open>renewalCount = 0\<close>, each of them unless the creation
  request supplies that field, in which case the book starts with the supplied value.
\<close>

theorem create_initial_state:
  "fst (createBook yearLimit oid now body st) = Inr b \<Longrightarrow>
     available b = (case req_available body of None \<Rightarrow> True | Some v \<Rightarrow> v)
   \<and> status b = (case req_status body of None \<Rightarrow> ''Available'' | Some s \<Rightarrow> s)
   \<and> renewalCount b = (case req_renewalCount body of None \<Rightarrow> 0 | Some n \<Rightarrow> n)"
  using createBook_Inr(1) [of yearLimit oid now body st b]
  by (simp add: applyBody_def newBook_def setVal_def split: option.split)

theorem create_initial_state_witness:
  "fst (createBook 2027 1 0 orwellBody []) = Inr book1984
   \<and> available book1984 = True \<and> status book1984 = ''Available'' \<and> renewalCount book1984 = 0"
proof -
  have a: "fst (createBook 2027 1 0 orwellBody []) = Inr book1984"
    using create_orwell by simp
  show ?thesis
    using a create_initial_state [OF a] by (simp add: orwellBody_def emptyBody_def)
qed

subsection \<open>The encodings of the lending state\<close>

text \<open>
  Claim C1, as stated, fails: a create request may supply lending fields, and Renew
  writes neither \<open>available\<close> nor \<open>status\<close>. Here a book is created with a \<open>dueDate\<close>
  and nothing else of a loan, and then renewed: both records are available by flag and
  status, and have a due date.
\<close>

theorem encodings_agree_counterexample:
  "map_sum id encodingsAgree (fst (createBook 2027 5 0 dueBody [])) = Inr False
   \<and> map_sum id encodingsAgree
        (fst (renewBook (IsObjectId 5) None 50 (snd (createBook 2027 5 0 dueBody [])))) = Inr False"
  by (simp add: create_dueBody renewBook_def findDoc_def Book_renewBook_def newBook_def
      addDays_def orDefault_def save_def Let_def encodingsAgree_def lendingAbsent_def)

text \<open>
  Claim C1, amended. The three encodings of the lending state agree on the record that
  every successful Borrow and every successful Return stores; on the record that a
  successful Renew stores when they agreed on the record before it; and on the book
  that Create stores when the creation request supplies none of \<open>available\<close>,
  \<open>status\<close>, \<open>borrowedBy\<close>, \<open>borrowedAt\<close> and \<open>dueDate\<close>.
\<close>

theorem encodings_agree_transitions:
  "(fst (borrowBook r brw t1 t2 t3 t4 st) = Inr b' \<longrightarrow>
       encodingsAgree b' \<and> findById (snd (borrowBook r brw t1 t2 t3 t4 st)) r = Inr (Some b'))
   \<and> (fst (returnBook r now st) = Inr b' \<longrightarrow>
       encodingsAgree b' \<and> findById (snd (returnBook r now st)) r = Inr (Some b'))
   \<and> (\<forall>bk. findById st r = Inr (Some bk) \<and> encodingsAgree bk
            \<and> fst (renewBook r weeks now st) = Inr b' \<longrightarrow>
       encodingsAgree b' \<and> findById (snd (renewBook r weeks now st)) r = Inr (Some b'))
   \<and> (fst (createBook yearLimit oid now body st) = Inr b'
        \<and> req_available body = None \<and> req_status body = None \<and> req_borrowedBy body = None
        \<and> req_borrowedAt body = None \<and> req_dueDate body = None \<longrightarrow>
       encodingsAgree b' \<and> snd (createBook yearLimit oid now body st) = st @ [b'])"
proof (intro conjI allI impI)
  assume a: "fst (borrowBook r brw t1 t2 t3 t4 st) = Inr b'"
  from borrowBook_Inr [OF a] show "encodingsAgree b'"
    by (auto simp: encodingsAgree_def lendingAbsent_def)
  from borrowBook_Inr_stored [OF a]
  show "findById (snd (borrowBook r brw t1 t2 t3 t4 st)) r = Inr (Some b')" .
next
  assume a: "fst (returnBook r now st) = Inr b'"
  from returnBook_Inr [OF a] show "encodingsAgree b'"
    by (auto simp: encodingsAgree_def lendingAbsent_def Book_returnBook_def)
  from returnBook_Inr_stored [OF a]
  show "findById (snd (returnBook r now st)) r = Inr (Some b')" .
next
  fix bk
  assume a: "findById st r = Inr (Some bk) \<and> encodingsAgree bk
              \<and> fst (renewBook r weeks now st) = Inr b'"
  then have rn: "fst (renewBook r weeks now st) = Inr b'" by simp
  from renewBook_Inr [OF rn] a show "encodingsAgree b'"
    by (auto simp: encodingsAgree_def lendingAbsent_def)
  from renewBook_Inr_stored [OF rn]
  show "findById (snd (renewBook r weeks now st)) r = Inr (Some b')" .
next
  assume a: "fst (createBook yearLimit oid now body st) = Inr b'
        \<and> req_available body = None \<and> req_status body = None \<and> req_borrowedBy body = None
        \<and> req_borrowedAt body = None \<and> req_dueDate body = None"
  then have c: "fst (createBook yearLimit oid now body st) = Inr b'" by simp
  from createBook_Inr(1) [OF c] a show "encodingsAgree b'"
    by (simp add: encodingsAgree_def lendingAbsent_def applyBody_def newBook_def setVal_def
        setOpt_def)
  from createBook_Inr(2) [OF c]
  show "snd (createBook yearLimit oid now body st) = st @ [b']" .
qed

theorem encodings_agree_transitions_witness:
  "fst (borrowBook (IsObjectId 1) annBorrows 100 101 102 103 [book1984]) = Inr borrowed1984
   \<and> encodingsAgree borrowed1984
   \<and> fst (returnBook (IsObjectId 1) 500 [borrowed1984])
        = Inr ((Book_returnBook borrowed1984)\<lparr>updatedAt := 500\<rparr>)
   \<and> encodingsAgree ((Book_returnBook borrowed1984)\<lparr>updatedAt := 500\<rparr>)
   \<and> fst (renewBook (IsObjectId 1) None 200 [borrowed1984])
        = Inr (borrowed1984\<lparr>dueDate := Some (102 + 35 * 86400000), renewalCount := 1,
                             updatedAt := 200\<rparr>)
   \<and> encodingsAgree (borrowed1984\<lparr>dueDate := Some (102 + 35 * 86400000), renewalCount := 1,
                                   updatedAt := 200\<rparr>)
   \<and> fst (createBook 2027 1 0 orwellBody []) = Inr book1984
   \<and> encodingsAgree book1984"
proof -
  have rt: "fst (returnBook (IsObjectId 1) 500 [borrowed1984])
             = Inr ((Book_returnBook borrowed1984)\<lparr>updatedAt := 500\<rparr>)"
    using returnBook_success(1) [OF findById_borrowed1984, of 500]
    by (simp add: borrowed1984_fields)
  have c: "fst (createBook 2027 1 0 orwellBody []) = Inr book1984"
    using create_orwell by simp
  have b: "req_available orwellBody = None \<and> req_status orwellBody = None
     \<and> req_borrowedBy orwellBody = None \<and> req_borrowedAt orwellBody = None
     \<and> req_dueDate orwellBody = None"
    by (simp add: orwellBody_def emptyBody_def)
  have e0: "encodingsAgree borrowed1984"
    using encodings_agree_transitions
      [of "IsObjectId 1" annBorrows 100 101 102 103 "[book1984]" borrowed1984]
      borrow_1984 by blast
  have e1: "encodingsAgree ((Book_returnBook borrowed1984)\<lparr>updatedAt := 500\<rparr>)"
    using encodings_agree_transitions [of "IsObjectId 1" _ _ _ _ _ "[borrowed1984]" _ 500] rt
    by blast
  have e2: "encodingsAgree (borrowed1984\<lparr>dueDate := Some (102 + 35 * 86400000),
                                          renewalCount := 1, updatedAt := 200\<rparr>)"
    using encodings_agree_transitions [of "IsObjectId 1" _ _ _ _ _ "[borrowed1984]" _ 200 None]
      renew_borrowed1984 e0 findById_borrowed1984 by blast
  have e3: "encodingsAgree book1984"
    using encodings_agree_transitions [of _ _ _ _ _ _ "[]" book1984 0 _ 2027 1 orwellBody] c b
    by blast
  show ?thesis using borrow_1984 rt renew_borrowed1984 c e0 e1 e2 e3 by blast
qed

subsection \<open>The renewal cap along sequences of requests\<close>

lemma applyBody_renewalCount:
  "req_renewalCount body = None \<Longrightarrow> renewalCount (applyBody body b) = renewalCount b"
  by (simp add: applyBody_def setVal_def)

lemma applyBody_maxRenewals:
  "req_maxRenewals body = None \<Longrightarrow> maxRenewals (applyBody body b) = maxRenewals b"
  by (simp add: applyBody_def setVal_def)

lemma createBook_set:
  "b \<in> set (snd (createBook yearLimit oid now body st)) \<Longrightarrow>
   b \<in> set st \<or> b = applyBody body (newBook oid now)"
  by (auto simp: createBook_def Let_def split: if_splits list.splits)

lemma updateBook_set:
  "b \<in> set (snd (updateBook yearLimit r body now st)) \<Longrightarrow>
   b \<in> set st \<or> (\<exists>bk\<in>set st. b = (applyBody body bk)\<lparr>updatedAt := now\<rparr>)"
  by (auto simp: updateBook_def Let_def dest!: findDoc_in_set
      split: if_splits list.splits option.splits idText.splits)

lemma deleteBook_set: "b \<in> set (snd (deleteBook r st)) \<Longrightarrow> b \<in> set st"
  by (auto simp: deleteBook_def split: option.splits sum.splits)

lemma borrowBook_Inl:
  "fst (borrowBook r body t1 t2 t3 t4 st) = Inl err \<Longrightarrow> snd (borrowBook r body t1 t2 t3 t4 st) = st"
  by (auto simp: borrowBook_def save_def Let_def
      split: option.splits if_splits sum.splits prod.splits)

lemma returnBook_Inl:
  "fst (returnBook r now st) = Inl err \<Longrightarrow> snd (returnBook r now st) = st"
  by (auto simp: returnBook_def save_def Let_def
      split: option.splits if_splits sum.splits prod.splits)

lemma renewBook_Inl:
  "fst (renewBook r weeks now st) = Inl err \<Longrightarrow> snd (renewBook r weeks now st) = st"
  by (auto simp: renewBook_def save_def Let_def
      split: option.splits if_splits sum.splits prod.splits)

lemma capKept_replace:
  assumes "capKept st"
    and "0 \<le> renewalCount b'" "renewalCount b' \<le> maxRenewals b'" "maxRenewals b' < 2 ^ 53"
  shows "capKept (map (\<lambda>b. if book_id b = i then b' else b) st)"
  using assms by (auto simp: capKept_def)

lemma capKept_found:
  "capKept st \<Longrightarrow> findDoc st i = Some bk \<Longrightarrow>
     0 \<le> renewalCount bk \<and> renewalCount bk \<le> maxRenewals bk \<and> maxRenewals bk < 2 ^ 53"
  by (auto simp: capKept_def dest: findDoc_in_set)

lemma exec_capKept:
  assumes "\<not> suppliesCounts c" and "capKept st"
  shows "capKept (exec yearLimit c st)"
proof (cases c)
  case (Create oid now body)
  with assms show ?thesis
    by (auto simp: capKept_def applyBody_renewalCount applyBody_maxRenewals newBook_def
        dest!: createBook_set)
next
  case (Update r body now)
  with assms show ?thesis
    by (auto simp: capKept_def applyBody_renewalCount applyBody_maxRenewals
        dest!: updateBook_set)
next
  case (Delete r)
  with assms show ?thesis
    by (auto simp: capKept_def dest!: deleteBook_set)
next
  case (Borrow r body t1 t2 t3 t4)
  show ?thesis
  proof (cases "fst (borrowBook r body t1 t2 t3 t4 st)")
    case (Inl err)
    with Borrow assms borrowBook_Inl [OF Inl] show ?thesis by simp
  next
    case (Inr b')
    from borrowBook_Inr [OF Inr] obtain i bk u d where
      f: "findDoc st i = Some bk"
      and b: "b' = bk\<lparr>available := False, status := ''Borrowed'',
                      borrowedBy := \<lparr>userId = Some u, name = br_userName body,
                                      email = br_userEmail body\<rparr>,
                      borrowedAt := Some t1, borrowDate := Some t2, dueDate := Some d,
                      updatedAt := t4\<rparr>"
      and s: "snd (borrowBook r body t1 t2 t3 t4 st) = map (\<lambda>b. if book_id b = i then b' else b) st"
      by blast
    from capKept_found [OF assms(2) f] b
    have "0 \<le> renewalCount b'" "renewalCount b' \<le> maxRenewals b'" "maxRenewals b' < 2 ^ 53"
      by simp_all
    from capKept_replace [OF assms(2) this] show ?thesis by (simp add: Borrow s)
  qed
next
  case (Return r now)
  show ?thesis
  proof (cases "fst (returnBook r now st)")
    case (Inl err)
    with Return assms returnBook_Inl [OF Inl] show ?thesis by simp
  next
    case (Inr b')
    from returnBook_Inr [OF Inr] obtain i bk where
      f: "findDoc st i = Some bk"
      and b: "b' = (Book_returnBook bk)\<lparr>updatedAt := now\<rparr>"
      and s: "snd (returnBook r now st) = map (\<lambda>b. if book_id b = i then b' else b) st"
      by blast
    from capKept_found [OF assms(2) f] b
    have "0 \<le> renewalCount b'" "renewalCount b' \<le> maxRenewals b'" "maxRenewals b' < 2 ^ 53"
      by (simp_all add: Book_returnBook_def)
    from capKept_replace [OF assms(2) this] show ?thesis by (simp add: Return s)
  qed
next
  case (Renew r weeks now)
  show ?thesis
  proof (cases "fst (renewBook r weeks now st)")
    case (Inl err)
    with Renew assms renewBook_Inl [OF Inl] show ?thesis by simp
  next
    case (Inr b')
    from renewBook_Inr [OF Inr] obtain i bk d d' where
      f: "findDoc st i = Some bk" and below: "renewalCount bk < maxRenewals bk"
      and b: "b' = bk\<lparr>dueDate := Some d', renewalCount := dbl (renewalCount bk + 1),
                      updatedAt := now\<rparr>"
      and s: "snd (renewBook r weeks now st) = map (\<lambda>b. if book_id b = i then b' else b) st"
      by blast
    from capKept_found [OF assms(2) f] below
    have "\<bar>renewalCount bk + 1\<bar> < 2 ^ 53" by simp
    then have "dbl (renewalCount bk + 1) = renewalCount bk + 1" by (rule dbl_exact)
    with capKept_found [OF assms(2) f] below b
    have "0 \<le> renewalCount b'" "renewalCount b' \<le> maxRenewals b'" "maxRenewals b' < 2 ^ 53"
      by simp_all
    from capKept_replace [OF assms(2) this] show ?thesis by (simp add: Renew s)
  qed
qed

lemma run_capKept:
  "\<forall>c\<in>set cmds. \<not> suppliesCounts c \<Longrightarrow> capKept st \<Longrightarrow> capKept (run yearLimit cmds st)"
  by (induction cmds arbitrary: st) (simp_all add: run_def exec_capKept)

subsection \<open>The unique index on the ISBN\<close>


lemma trim_isbn [simp]:
  "trim ''Emma'' = ''Emma''" "trim ''Jane Austen'' = ''Jane Austen''"
  "trim ''Emma, again'' = ''Emma, again''"
  "trim ''978-0-14-143951-8'' = ''978-0-14-143951-8''"
  "trim '' 978-0-14-143951-8'' = ''978-0-14-143951-8''"
  by (simp_all add: trim_def isSpace_def)






subsection \<open>The renewal cap: examples\<close>

lemma save_single:
  "book_id d = book_id b \<Longrightarrow> save (Some d) now [b] = (Inr (d\<lparr>updatedAt := now\<rparr>), [d\<lparr>updatedAt := now\<rparr>])"
  by (simp add: save_Some)

lemma exec_create_orwell: "exec 2027 (Create 1 0 orwellBody) [] = [book1984]"
  using create_orwell by simp

lemma exec_borrow_1984:
  "exec 2027 (Borrow (IsObjectId 1) annBorrows 100 101 102 103) [book1984] = [borrowed1984]"
proof -
  have "findById (snd (borrowBook (IsObjectId 1) annBorrows 100 101 102 103 [book1984]))
          (IsObjectId 1) = Inr (Some borrowed1984)"
    using borrowBook_Inr_stored [OF borrow_1984] .
  moreover from borrowBook_Inr [OF borrow_1984]
  have "\<exists>i. snd (borrowBook (IsObjectId 1) annBorrows 100 101 102 103 [book1984])
               = map (\<lambda>b. if book_id b = i then borrowed1984 else b) [book1984]
             \<and> IsObjectId 1 = IsObjectId i"
    by blast
  ultimately show ?thesis
    by (auto simp: findDoc_def split: if_splits)
qed

lemma exec_renew_found:
  assumes "findById [b] r = Inr (Some b)" "renewalCount b < maxRenewals b" "dueDate b = Some d"
    and "\<bar>renewalCount b + 1\<bar> < 2 ^ 53" and "\<bar>d + 14 * 86400000\<bar> \<le> 8640000000000000"
  shows "exec yearLimit (Renew r None now) [b]
           = [b\<lparr>dueDate := Some (d + 14 * 86400000), renewalCount := renewalCount b + 1,
                 updatedAt := now\<rparr>]"
  using assms
  by (simp add: renewBook_def Book_renewBook_def save_single addDays_def orDefault_def dbl_exact)

lemma exec_renew_capped:
  assumes "findById [b] r = Inr (Some b)" "maxRenewals b \<le> renewalCount b"
  shows "exec yearLimit (Renew r None now) [b] = [b]"
  using assms by (simp add: renewBook_def Book_renewBook_def)

lemma run_renewals:
  "run 2027 renewals [] =
     [borrowed1984\<lparr>dueDate := Some (102 + 49 * 86400000), renewalCount := 2, updatedAt := 201\<rparr>]"
proof -
  let ?r1 = "borrowed1984\<lparr>dueDate := Some (102 + 35 * 86400000), renewalCount := 1, updatedAt := 200\<rparr>"
  let ?r2 = "borrowed1984\<lparr>dueDate := Some (102 + 49 * 86400000), renewalCount := 2, updatedAt := 201\<rparr>"
  note b = borrowed1984_fields
  have f: "findById [?r1] (IsObjectId 1) = Inr (Some ?r1)"
    "findById [?r2] (IsObjectId 1) = Inr (Some ?r2)"
    using b(5) by (simp_all add: findDoc_def)
  have s3: "exec 2027 (Renew (IsObjectId 1) None 200) [borrowed1984] = [?r1]"
    using exec_renew_found [OF findById_borrowed1984, of "102 + 21 * 86400000" 2027 200] b
    by simp
  have s4: "exec 2027 (Renew (IsObjectId 1) None 201) [?r1] = [?r2]"
    using exec_renew_found [OF f(1), of "102 + 35 * 86400000" 2027 201] b by simp
  have s5: "exec 2027 (Renew (IsObjectId 1) None 202) [?r2] = [?r2]"
    using exec_renew_capped [OF f(2), of 2027 202] b by simp
  show ?thesis
    by (simp only: renewals_def run_def fold_simps exec_create_orwell exec_borrow_1984 s3 s4 s5)
qed

lemma validCreate_overCap: "validCreate 2027 overCapBody"
  by (simp add: validCreate_def overCapBody_def emptyBody_def falsy_def
      validationMessages_def requiredStr_def minInt_def)

lemma updateBook_single:
  assumes "validationMessages False yearLimit body = []" "findDoc [b] i = Some b"
    "req_isbn body = None"
  shows "snd (updateBook yearLimit (IsObjectId i) body now [b])
           = [(applyBody body b)\<lparr>updatedAt := now\<rparr>]"
  using assms findDoc_Some_id [OF assms(2)]
  by (simp add: updateBook_def Let_def setOptStr_def isbnTaken_def)

text \<open>
  Claim C7, as stated, fails: \<open>renewalCount\<close> and \<open>maxRenewals\<close> are paths of the
  schema that a create or update request may set, each validated on its own. A book is
  created with \<open>renewalCount = 5\<close> under the default cap 2; and a book renewed twice has
  its cap lowered to 1 by an update.
\<close>

theorem renewals_within_cap_counterexample:
  "map renewalCount (run 2027 [Create 6 0 overCapBody] []) = [5]
   \<and> map maxRenewals (run 2027 [Create 6 0 overCapBody] []) = [2]
   \<and> map renewalCount (run 2027 (renewals @ [Update (IsObjectId 1) lowerCap 300]) []) = [2]
   \<and> map maxRenewals (run 2027 (renewals @ [Update (IsObjectId 1) lowerCap 300]) []) = [1]"
proof -
  let ?r2 = "borrowed1984\<lparr>dueDate := Some (102 + 49 * 86400000), renewalCount := 2, updatedAt := 201\<rparr>"
  have a: "run 2027 [Create 6 0 overCapBody] [] = [applyBody overCapBody (newBook 6 0)]"
    by (simp add: run_def createBook_valid [OF validCreate_overCap])
       (simp add: overCapBody_def emptyBody_def isbnTaken_def setOptStr_def)
  have b: "run 2027 (renewals @ [Update (IsObjectId 1) lowerCap 300]) []
            = exec 2027 (Update (IsObjectId 1) lowerCap 300) (run 2027 renewals [])"
    by (simp add: run_def)
  have c: "validationMessages False 2027 lowerCap = []" "req_isbn lowerCap = None"
    by (simp_all add: lowerCap_def emptyBody_def validationMessages_def requiredStr_def minInt_def)
  have f: "findDoc [?r2] 1 = Some ?r2"
    by (simp add: findDoc_def borrowed1984_fields)
  have u: "exec 2027 (Update (IsObjectId 1) lowerCap 300) [?r2]
             = [(applyBody lowerCap ?r2)\<lparr>updatedAt := 300\<rparr>]"
    using updateBook_single [OF c(1) f c(2), of 300] by simp
  show ?thesis
    unfolding a b run_renewals u
    by (simp add: overCapBody_def lowerCap_def emptyBody_def applyBody_def newBook_def setVal_def)
qed

text \<open>
  Claim C7, amended. For every book record reachable from the empty collection through
  any sequence of Create, Update, Delete, Borrow, Return and Renew requests in which no
  Create or Update request supplies \<open>renewalCount\<close> or \<open>maxRenewals\<close>, \<open>renewalCount\<close>
  is less than or equal to \<open>maxRenewals\<close>.
\<close>

theorem renewals_within_cap:
  "\<forall>c\<in>set cmds. \<not> suppliesCounts c \<Longrightarrow>
   \<forall>b\<in>set (run yearLimit cmds []). renewalCount b \<le> maxRenewals b"
  using run_capKept [of cmds "[]" yearLimit] by (simp add: capKept_def)

theorem renewals_within_cap_witness:
  "list_all (\<lambda>c. \<not> suppliesCounts c) renewals
   \<and> list_all (\<lambda>b. renewalCount b \<le> maxRenewals b) (run 2027 renewals [])
   \<and> map renewalCount (run 2027 renewals []) = [2]
   \<and> map maxRenewals (run 2027 renewals []) = [2]"
proof -
  have h: "\<forall>c\<in>set renewals. \<not> suppliesCounts c"
    by (simp add: renewals_def orwellBody_def emptyBody_def)
  have v: "map renewalCount (run 2027 renewals []) = [2]" "map maxRenewals (run 2027 renewals []) = [2]"
    by (simp_all add: run_renewals borrowed1984_fields)
  show ?thesis
    using h renewals_within_cap [OF h, of 2027] v by (simp only: list_all_iff simp_thms)
qed

subsection \<open>Listing\<close>

lemma selects_effective:
  "selects txt (castFilter (buildQuery rq)) b = satisfiesFilters txt (effectiveFilters rq) b"
  by (auto simp: selects_def castFilter_def buildQuery_def satisfiesFilters_def
      effectiveFilters_def meets_def ifTruthy_def falsy_def split: option.splits)

lemma effectiveFilters_queryOf:
  assumes "plainFilters fc"
  shows "effectiveFilters (queryOf fc) = fc"
proof -
  have "fc_available (effectiveFilters (queryOf fc)) = fc_available fc"
    by (cases "fc_available fc") (simp_all add: effectiveFilters_def queryOf_def)
  moreover have "fc_q (effectiveFilters (queryOf fc)) = fc_q fc"
    "fc_status (effectiveFilters (queryOf fc)) = fc_status fc"
    "fc_category (effectiveFilters (queryOf fc)) = fc_category fc"
    "fc_genre (effectiveFilters (queryOf fc)) = fc_genre fc"
    using assms
    by (auto simp: plainFilters_def plainText_def effectiveFilters_def queryOf_def
        split: option.splits)
  moreover have "filterConfig.more (effectiveFilters (queryOf fc)) = filterConfig.more fc"
    by simp
  ultimately show ?thesis
    by (intro filterConfig.equality)
qed

lemma getAllBooks_snd:
  "snd (getAllBooks txt rq st)
     = sort_key (\<lambda>b. - createdAt b) (filter (satisfiesFilters txt (effectiveFilters rq)) st)"
  by (simp add: getAllBooks_def Let_def selects_effective [abs_def])

lemma getAllBooks_fst: "fst (getAllBooks txt rq st) = length (snd (getAllBooks txt rq st))"
  by (simp add: getAllBooks_def Let_def)

lemma getAllBooks_mset:
  "mset (snd (getAllBooks txt rq st))
     = filter_mset (satisfiesFilters txt (effectiveFilters rq)) (mset st)"
  by (simp add: getAllBooks_snd)

lemma getAllBooks_count:
  "fst (getAllBooks txt rq st)
     = size (filter_mset (satisfiesFilters txt (effectiveFilters rq)) (mset st))"
proof -
  have "fst (getAllBooks txt rq st) = size (mset (snd (getAllBooks txt rq st)))"
    by (simp add: getAllBooks_fst)
  then show ?thesis
    by (simp only: getAllBooks_mset)
qed

lemma shelf_fields:
  "category book1984 = ''General''" "category emma = ''General''"
  "category (borrowed1984\<lparr>book_id := 2, createdAt := 50\<rparr>) = ''General''"
  "available book1984" "available emma"
  "\<not> available (borrowed1984\<lparr>book_id := 2, createdAt := 50\<rparr>)"
  by (simp_all add: book1984_def emma_def newBook_def borrowed1984_def)

lemma trim_padded [simp]: "trim '' General '' = ''General''"
  by (simp add: trim_def isSpace_def)

text \<open>
  Claim C8, as stated, fails. Every book of the shelf has the category \<open>General\<close>. Asked
  for the category \<open>General\<close> with a blank before and after it, which no record has, List
  returns all three books, because the store casts the value of the filter through the
  setter of the schema; asked for the empty category, which no record has either, it
  returns all three as well, because the handler skips an empty value.
\<close>

theorem list_filters_sorted_counterexample:
  "fst (getAllBooks titleIs (queryOf paddedCategory) shelf) = 3
   \<and> filter (satisfiesFilters titleIs paddedCategory) shelf = []
   \<and> fst (getAllBooks titleIs (queryOf emptyCategory) shelf) = 3
   \<and> filter (satisfiesFilters titleIs emptyCategory) shelf = []"
proof (intro conjI)
  have p: "satisfiesFilters titleIs (effectiveFilters (queryOf paddedCategory))
             = (\<lambda>b. category b = ''General'')"
    by (rule ext)
       (simp add: satisfiesFilters_def effectiveFilters_def queryOf_def paddedCategory_def
         noFilters_def)
  have e: "satisfiesFilters titleIs (effectiveFilters (queryOf emptyCategory)) = (\<lambda>b. True)"
    by (rule ext)
       (simp add: satisfiesFilters_def effectiveFilters_def queryOf_def emptyCategory_def
         noFilters_def)
  show "fst (getAllBooks titleIs (queryOf paddedCategory) shelf) = 3"
    unfolding getAllBooks_count p by (simp add: shelf_def shelf_fields)
  show "fst (getAllBooks titleIs (queryOf emptyCategory) shelf) = 3"
    unfolding getAllBooks_count e by (simp add: shelf_def)
  show "filter (satisfiesFilters titleIs paddedCategory) shelf = []"
    by (simp add: satisfiesFilters_def paddedCategory_def noFilters_def shelf_def shelf_fields)
  show "filter (satisfiesFilters titleIs emptyCategory) shelf = []"
    by (simp add: satisfiesFilters_def emptyCategory_def noFilters_def shelf_def shelf_fields)
qed

text \<open>
  Claim C8, amended. For every collection and every list request, List returns exactly
  the records that satisfy the conjunction of the filters the request amounts to (each
  record as often as it is stored), where an empty value of \<open>q\<close>, \<open>category\<close>, \<open>genre\<close> or
  \<open>status\<close> specifies no filter, \<open>category\<close> and \<open>genre\<close> are compared without the white
  space at the ends of the value, and \<open>available\<close> is true for the value \<open>true\<close> and false
  for any other; the records are sorted by creation time descending and the count is the
  number of matches. So for every filter configuration whose specified strings are not
  empty and whose category and genre have no white space at their ends, List returns
  exactly the records satisfying the conjunction of the specified filters, with their
  number; List with \<open>available=true\<close> alone returns exactly the records with
  \<open>available = true\<close>.
\<close>

theorem list_filters_sorted:
  "mset (snd (getAllBooks txt rq st))
      = filter_mset (satisfiesFilters txt (effectiveFilters rq)) (mset st)
   \<and> sorted_wrt (\<lambda>a b. createdAt b \<le> createdAt a) (snd (getAllBooks txt rq st))
   \<and> fst (getAllBooks txt rq st)
        = size (filter_mset (satisfiesFilters txt (effectiveFilters rq)) (mset st))
   \<and> (plainFilters fc \<longrightarrow>
        mset (snd (getAllBooks txt (queryOf fc) st)) = filter_mset (satisfiesFilters txt fc) (mset st)
        \<and> fst (getAllBooks txt (queryOf fc) st)
            = size (filter_mset (satisfiesFilters txt fc) (mset st)))
   \<and> mset (snd (getAllBooks txt (queryOf onlyAvailable) st)) = filter_mset available (mset st)"
proof (intro conjI impI)
  show "mset (snd (getAllBooks txt rq st))
      = filter_mset (satisfiesFilters txt (effectiveFilters rq)) (mset st)"
    by (rule getAllBooks_mset)
  have "sorted (map (\<lambda>b. - createdAt b) (snd (getAllBooks txt rq st)))"
    by (simp add: getAllBooks_snd)
  then show "sorted_wrt (\<lambda>a b. createdAt b \<le> createdAt a) (snd (getAllBooks txt rq st))"
    by (simp add: sorted_map)
  show "fst (getAllBooks txt rq st)
        = size (filter_mset (satisfiesFilters txt (effectiveFilters rq)) (mset st))"
    by (rule getAllBooks_count)
  have "satisfiesFilters txt (effectiveFilters (queryOf onlyAvailable)) = available"
    by (rule ext)
       (simp add: satisfiesFilters_def effectiveFilters_def queryOf_def onlyAvailable_def
         noFilters_def)
  then show "mset (snd (getAllBooks txt (queryOf onlyAvailable) st)) = filter_mset available (mset st)"
    by (simp add: getAllBooks_mset)
next
  assume "plainFilters fc"
  then have e: "effectiveFilters (queryOf fc) = fc"
    by (rule effectiveFilters_queryOf)
  show "mset (snd (getAllBooks txt (queryOf fc) st)) = filter_mset (satisfiesFilters txt fc) (mset st)"
    using getAllBooks_mset [of "txt" "queryOf fc" st] by (simp only: e)
  show "fst (getAllBooks txt (queryOf fc) st) = size (filter_mset (satisfiesFilters txt fc) (mset st))"
    using getAllBooks_count [of "txt" "queryOf fc" st] by (simp only: e)
qed

theorem list_filters_sorted_witness:
  "plainFilters onlyAvailable
   \<and> fst (getAllBooks titleIs (queryOf onlyAvailable) shelf) = 2
   \<and> mset (snd (getAllBooks titleIs (queryOf onlyAvailable) shelf)) = {#emma, book1984#}
   \<and> sorted_wrt (\<lambda>a b. createdAt b \<le> createdAt a)
        (snd (getAllBooks titleIs (queryOf onlyAvailable) shelf))"
proof -
  have p: "plainFilters onlyAvailable"
    by (simp add: plainFilters_def plainText_def onlyAvailable_def noFilters_def)
  have "satisfiesFilters titleIs onlyAvailable = available"
    by (rule ext) (simp add: satisfiesFilters_def onlyAvailable_def noFilters_def)
  then have m: "filter_mset (satisfiesFilters titleIs onlyAvailable) (mset shelf) = {#emma, book1984#}"
    by (simp add: shelf_def shelf_fields)
  show ?thesis
    using list_filters_sorted [of titleIs "queryOf onlyAvailable" shelf onlyAvailable] p
    by (simp add: m effectiveFilters_queryOf [OF p])
qed

end
